theory Spec2Isabelle
  imports Main "HOL-Library.Char_ord" "HOL-Library.List_Lexorder" "HOL-Library.Multiset"
begin

section \<open>Errors\<close>

text \<open>
  The exceptions the modelled code paths can raise.  An operation that may raise returns
  \<open>error + 'a\<close>, with \<open>Inl\<close> for the exception.
\<close>

datatype error =
    IndexError
  | KeyError
  | ConnectionError
  | JSONDecodeError
  | UnidentifiedImageError
  | FileExistsError
  | FileNotFoundError
  | NotADirectoryError
  | IsADirectoryError
  | OSError

section \<open>Python string operations used by the source\<close>

text \<open>
  A Python \<open>str\<close> is modelled as a \<open>string\<close>, each character read as a code point below
  256.  \<open>is_space\<close> is \<open>str.isspace\<close> on that range.
\<close>

definition is_space :: "char \<Rightarrow> bool" where
  "is_space c =
     (let n = (of_char c :: nat)
      in (9 \<le> n \<and> n \<le> 13) \<or> (28 \<le> n \<and> n \<le> 32) \<or> n = 133 \<or> n = 160)"

text \<open>\<open>s.split()\<close>: the maximal runs of non-whitespace characters.\<close>

fun split_ws_loop :: "string \<Rightarrow> string \<Rightarrow> string list" where
  "split_ws_loop cur [] = (if cur = [] then [] else [cur])"
| "split_ws_loop cur (c # cs) =
     (if is_space c
      then (if cur = [] then split_ws_loop [] cs else cur # split_ws_loop [] cs)
      else split_ws_loop (cur @ [c]) cs)"

definition split_ws :: "string \<Rightarrow> string list" where
  "split_ws s = split_ws_loop [] s"

text \<open>\<open>s.split(sep)\<close> for a one-character separator: never an empty list.\<close>

fun split_on :: "char \<Rightarrow> string \<Rightarrow> string list" where
  "split_on sep [] = [[]]"
| "split_on sep (c # cs) =
     (if c = sep then [] # split_on sep cs
      else (case split_on sep cs of [] \<Rightarrow> [[c]] | w # ws \<Rightarrow> (c # w) # ws))"

text \<open>\<open>xs[i]\<close> for a non-negative index: IndexError out of range.\<close>

definition index :: "'a list \<Rightarrow> nat \<Rightarrow> error + 'a" where
  "index xs i = (if i < length xs then Inr (xs ! i) else Inl IndexError)"

text \<open>\<open>sep.join(xs)\<close> for the separator \<open>/\<close>.\<close>

fun slash_join :: "string list \<Rightarrow> string" where
  "slash_join [] = []"
| "slash_join [x] = x"
| "slash_join (x # y # ys) = x @ ''/'' @ slash_join (y # ys)"

text \<open>\<open>s.rfind(c)\<close>: the index of the last occurrence, or -1.\<close>

fun rfind_loop :: "char \<Rightarrow> string \<Rightarrow> int \<Rightarrow> int \<Rightarrow> int" where
  "rfind_loop c [] i best = best"
| "rfind_loop c (x # xs) i best = rfind_loop c xs (i + 1) (if x = c then i else best)"

definition rfind :: "string \<Rightarrow> char \<Rightarrow> int" where
  "rfind s c = rfind_loop c s 0 (- 1)"

section \<open>posixpath\<close>

text \<open>
  \<open>os.path.splitext\<close>: the extension starts at the last dot of the last component,
  leading dots of that component not counted.
\<close>

definition splitext :: "string \<Rightarrow> string \<times> string" where
  "splitext p =
     (let sepIndex = rfind p CHR ''/'';
          dotIndex = rfind p CHR ''.''
      in if dotIndex > sepIndex \<and>
            list_ex (\<lambda>ch. ch \<noteq> CHR ''.'')
              (take (nat (dotIndex - (sepIndex + 1))) (drop (nat (sepIndex + 1)) p))
         then (take (nat dotIndex) p, drop (nat dotIndex) p)
         else (p, []))"

text \<open>\<open>os.path.join(a, *p)\<close>.\<close>

fun join_loop :: "string \<Rightarrow> string list \<Rightarrow> string" where
  "join_loop pth [] = pth"
| "join_loop pth (b # bs) =
     (if take 1 b = ''/'' then join_loop b bs
      else if pth = [] \<or> last pth = CHR ''/'' then join_loop (pth @ b) bs
      else join_loop (pth @ ''/'' @ b) bs)"

definition join :: "string \<Rightarrow> string list \<Rightarrow> string" where
  "join a p = join_loop a p"

text \<open>\<open>os.path.normpath\<close>.\<close>

fun normpath_loop :: "nat \<Rightarrow> string list \<Rightarrow> string list \<Rightarrow> string list" where
  "normpath_loop initial_slashes [] new_comps = new_comps"
| "normpath_loop initial_slashes (cmp # comps) new_comps =
     (if cmp = [] \<or> cmp = ''.'' then normpath_loop initial_slashes comps new_comps
      else if cmp \<noteq> ''..'' \<or> (initial_slashes = 0 \<and> new_comps = [])
               \<or> (new_comps \<noteq> [] \<and> last new_comps = ''..'')
      then normpath_loop initial_slashes comps (new_comps @ [cmp])
      else if new_comps \<noteq> [] then normpath_loop initial_slashes comps (butlast new_comps)
      else normpath_loop initial_slashes comps new_comps)"

definition normpath :: "string \<Rightarrow> string" where
  "normpath p =
     (if p = [] then ''.''
      else
        let initial_slashes =
              (if take 1 p = ''/''
               then (if take 2 p = ''//'' \<and> take 3 p \<noteq> ''///'' then 2 else 1)
               else (0::nat));
            comps = normpath_loop initial_slashes (split_on CHR ''/'' p) [];
            q = replicate initial_slashes CHR ''/'' @ slash_join comps
        in if q = [] then ''.'' else q)"

text \<open>
  The working directory is kept as the list of its components from the root;
  \<open>getcwd\<close> is its text.
\<close>

type_synonym fspath = "string list"

definition getcwd :: "fspath \<Rightarrow> string" where
  "getcwd c = (if c = [] then ''/'' else concat (map (\<lambda>x. ''/'' @ x) c))"

definition abspath :: "fspath \<Rightarrow> string \<Rightarrow> string" where
  "abspath c p = normpath (if take 1 p = ''/'' then p else join (getcwd c) [p])"

section \<open>The outside world\<close>

text \<open>
  An image held by Pillow: the default \<open>Image.new('RGBA', (1, 1), 'white')\<close>, or a
  picture that was opened, with its data.
\<close>

datatype image = Blank | Picture string

text \<open>
  What the program reads from outside the file system, and the library calls whose
  result depends on image data:
  \<^item> the standard output of a shell command (\<open>os.popen(cmd).read()\<close>, empty when the
    binary is missing);
  \<^item> the decoded JSON object of an HTTP GET (\<open>requests.get(url, headers).json()\<close>);
  \<^item> the image behind a URL (\<open>Image.open(BytesIO(requests.get(url).content))\<close>);
  \<^item> the loading of the image data that \<open>Image.save\<close> does first: the exception, if
    any;
  \<^item> the PNG encoder run by \<open>Image.save\<close> on an \<open>icon.png\<close> path: the bytes written,
    or the exception of the encoder (OSError for a mode PNG cannot hold);
  \<^item> \<open>Image.open(path).resize((150, 150))\<close> on the bytes of a file
    (UnidentifiedImageError when they are no image);
  \<^item> the rest of the image work of \<open>Game.__init__\<close> for an image and the id of an
    emulator: the darkened copy, and the emulator's icon pasted on both; the result is
    the pair of the normal and the hover image.
\<close>

record env =
  popen_read :: "string \<Rightarrow> string"
  get_json :: "string \<Rightarrow> error + (string \<times> string) list"
  get_image :: "string \<Rightarrow> error + image"
  load_image :: "image \<Rightarrow> error option"
  encode_png :: "image \<Rightarrow> error + string"
  open_image :: "string \<Rightarrow> error + image"
  render :: "image \<Rightarrow> string \<Rightarrow> error + image \<times> image"

section \<open>emulators.py\<close>

text \<open>
  An emulator: the fields set by \<open>Emulator.__init__\<close> (\<open>sid\<close> is the attribute \<open>id\<close>) and
  the class of the object, which selects the overridden methods.  The icon opened by the
  constructor is presentation and is left out.
\<close>

datatype emulator_class = Emulator | Mgba | Dolphin | MelonDS | Azahar

record emulator =
  sid :: string
  ext :: string
  gh_path :: string
  cls :: emulator_class

definition Emulator_init :: "emulator_class \<Rightarrow> string \<Rightarrow> string \<Rightarrow> string \<Rightarrow> emulator" where
  "Emulator_init k i x g = \<lparr>sid = i, ext = x, gh_path = g, cls = k\<rparr>"

definition MGBA :: emulator where
  "MGBA = Emulator_init Mgba ''mgba'' ''gba'' ''mgba-emu/mgba''"

definition DOLPHIN :: emulator where
  "DOLPHIN = Emulator_init Dolphin ''dolphin'' ''rvz'' ''''"

definition MELONDS :: emulator where
  "MELONDS = Emulator_init MelonDS ''melonds'' ''nds'' ''melonDS-emu/melonDS''"

definition AZAHAR :: emulator where
  "AZAHAR = Emulator_init Azahar ''azahar'' ''cci'' ''azahar-emu/azahar''"

definition Emulators_ALL :: "emulator list" where
  "Emulators_ALL = [MGBA, DOLPHIN, MELONDS, AZAHAR]"

text \<open>\<open>Emulators.from_ext\<close>: the loop over the registry, first match wins.\<close>

fun from_ext_loop :: "emulator list \<Rightarrow> string \<Rightarrow> emulator option" where
  "from_ext_loop [] x = None"
| "from_ext_loop (e # es) x = (if ext e = x then Some e else from_ext_loop es x)"

definition from_ext :: "string \<Rightarrow> emulator option" where
  "from_ext x = from_ext_loop Emulators_ALL x"

text \<open>
  \<open>installed_version\<close>, by class.  The working directory enters through
  \<open>path.abspath\<close> in the command line.
\<close>

definition installed_version :: "env \<Rightarrow> fspath \<Rightarrow> emulator \<Rightarrow> error + string" where
  "installed_version en c e =
     (case cls e of
        Emulator \<Rightarrow> Inr ''0''
      | Mgba \<Rightarrow> index (split_ws (popen_read en (abspath c ''mgba/mgba'' @ '' --version''))) 1
      | Dolphin \<Rightarrow> Inr ''auto''
      | MelonDS \<Rightarrow>
          (case index (split_on CHR 0x0A
                         (popen_read en (abspath c ''melonds/melonds'' @ '' --help''))) 0 of
             Inl err \<Rightarrow> Inl err
           | Inr ln \<Rightarrow> index (split_ws ln) 1)
      | Azahar \<Rightarrow> index (split_ws (popen_read en (abspath c ''azahar/azahar'' @ '' -v''))) 1)"

text \<open>\<open>d[key]\<close> on the decoded JSON object.\<close>

definition getitem :: "(string \<times> string) list \<Rightarrow> string \<Rightarrow> error + string" where
  "getitem d k = (case map_of d k of None \<Rightarrow> Inl KeyError | Some v \<Rightarrow> Inr v)"

definition latest_version :: "env \<Rightarrow> emulator \<Rightarrow> error + string" where
  "latest_version en e =
     (case cls e of
        Dolphin \<Rightarrow> Inr ''auto''
      | _ \<Rightarrow>
          (case get_json en (''https://api.github.com/repos/'' @ gh_path e @ ''/releases/latest'') of
             Inl err \<Rightarrow> Inl err
           | Inr d \<Rightarrow> getitem d ''tag_name''))"

section \<open>emulator_launcher.py: the version check\<close>

text \<open>
  A report is the tuple \<open>(installed, latest, emulator)\<close>.  \<open>EmuOutdated\<close> is the window
  opened for a non-empty list of reports, with one label per report.
\<close>

type_synonym report = "string \<times> string \<times> emulator"

record emu_outdated =
  outdated :: "report list"
  labels :: "string list"

definition label_text :: "report \<Rightarrow> string" where
  "label_text r =
     (case r of (installed, latest, emu) \<Rightarrow>
        sid emu @ '' is outdated!'' @ [CHR 0x0A] @ ''installed: '' @ installed
          @ [CHR 0x0A] @ ''latest: '' @ latest)"

definition EmuOutdated_init :: "report list \<Rightarrow> emu_outdated" where
  "EmuOutdated_init rs = \<lparr>outdated = rs, labels = map label_text rs\<rparr>"

text \<open>
  The loop of \<open>check_emu_versions\<close>: the installed version is probed first, then the
  latest one; an exception of either leaves the loop and the function.
\<close>

fun check_loop :: "env \<Rightarrow> fspath \<Rightarrow> emulator list \<Rightarrow> report list \<Rightarrow> error + report list" where
  "check_loop en c [] acc = Inr acc"
| "check_loop en c (emu # emus) acc =
     (case installed_version en c emu of
        Inl err \<Rightarrow> Inl err
      | Inr v0 \<Rightarrow>
          (case latest_version en emu of
             Inl err \<Rightarrow> Inl err
           | Inr v1 \<Rightarrow>
               check_loop en c emus (if v0 \<noteq> v1 then acc @ [(v0, v1, emu)] else acc)))"

definition check_versions_of :: "emulator list \<Rightarrow> env \<Rightarrow> fspath \<Rightarrow> error + emu_outdated option" where
  "check_versions_of reg en c =
     (case check_loop en c reg [] of
        Inl err \<Rightarrow> Inl err
      | Inr rs \<Rightarrow> Inr (if rs \<noteq> [] then Some (EmuOutdated_init rs) else None))"

definition check_emu_versions :: "env \<Rightarrow> fspath \<Rightarrow> error + emu_outdated option" where
  "check_emu_versions en c = check_versions_of Emulators_ALL en c"

section \<open>The file system\<close>

text \<open>
  The file system as the program sees it through \<open>os\<close>: an association list from
  locations (component lists from the root) to nodes, in the order \<open>os.listdir\<close> reports
  them.  The root is always a directory.  No symbolic links and no permissions.
\<close>

datatype node = File string | Dir

type_synonym filesystem = "(fspath \<times> node) list"

definition lookup :: "filesystem \<Rightarrow> fspath \<Rightarrow> node option" where
  "lookup f p = (if p = [] then Some Dir else map_of f p)"

definition step :: "fspath \<Rightarrow> string \<Rightarrow> fspath" where
  "step cur c = (if c = ''.'' then cur else if c = ''..'' then butlast cur else cur @ [c])"

text \<open>
  Path resolution.  The components of a path are the non-empty pieces between slashes,
  so repeated and trailing slashes are skipped.  Every component is looked up in a
  directory that must exist; the location reached by the last component need not exist.
  A path that ends with a slash names a directory.
\<close>

definition components :: "string \<Rightarrow> string list" where
  "components p = filter (\<lambda>x. x \<noteq> []) (split_on CHR ''/'' p)"

definition wants_dir :: "string \<Rightarrow> bool" where
  "wants_dir p = (p \<noteq> [] \<and> last p = CHR ''/'')"

fun walk :: "filesystem \<Rightarrow> fspath \<Rightarrow> string list \<Rightarrow> error + fspath" where
  "walk f cur [] = Inr cur"
| "walk f cur (c # cs) =
     (case lookup f cur of
        None \<Rightarrow> Inl FileNotFoundError
      | Some (File _) \<Rightarrow> Inl NotADirectoryError
      | Some Dir \<Rightarrow> walk f (step cur c) cs)"

definition resolve :: "filesystem \<Rightarrow> fspath \<Rightarrow> string \<Rightarrow> error + fspath" where
  "resolve f c p =
     (if p = [] then Inl FileNotFoundError
      else walk f (if take 1 p = ''/'' then [] else c) (components p))"

definition children :: "filesystem \<Rightarrow> fspath \<Rightarrow> string list" where
  "children f q = map (\<lambda>(r, n). last r) (filter (\<lambda>(r, n). r \<noteq> [] \<and> butlast r = q) f)"

definition os_listdir :: "filesystem \<Rightarrow> fspath \<Rightarrow> string \<Rightarrow> error + string list" where
  "os_listdir f c p =
     (case resolve f c p of
        Inl err \<Rightarrow> Inl err
      | Inr q \<Rightarrow>
          (case lookup f q of
             None \<Rightarrow> Inl FileNotFoundError
           | Some (File _) \<Rightarrow> Inl NotADirectoryError
           | Some Dir \<Rightarrow> Inr (children f q)))"

definition os_isfile :: "filesystem \<Rightarrow> fspath \<Rightarrow> string \<Rightarrow> bool" where
  "os_isfile f c p =
     (case resolve f c p of
        Inl err \<Rightarrow> False
      | Inr q \<Rightarrow> (case lookup f q of Some (File _) \<Rightarrow> \<not> wants_dir p | _ \<Rightarrow> False))"

definition os_exists :: "filesystem \<Rightarrow> fspath \<Rightarrow> string \<Rightarrow> bool" where
  "os_exists f c p =
     (case resolve f c p of
        Inl err \<Rightarrow> False
      | Inr q \<Rightarrow> (case lookup f q of None \<Rightarrow> False | Some (File _) \<Rightarrow> \<not> wants_dir p
                   | Some Dir \<Rightarrow> True))"

text \<open>The bytes of a file, for a path that \<open>os_isfile\<close> accepts.\<close>

definition read_file :: "filesystem \<Rightarrow> fspath \<Rightarrow> string \<Rightarrow> string" where
  "read_file f c p =
     (case resolve f c p of
        Inl err \<Rightarrow> []
      | Inr q \<Rightarrow> (case lookup f q of Some (File dat) \<Rightarrow> dat | _ \<Rightarrow> []))"

definition os_mkdir :: "filesystem \<Rightarrow> fspath \<Rightarrow> string \<Rightarrow> error + filesystem" where
  "os_mkdir f c p =
     (case resolve f c p of
        Inl err \<Rightarrow> Inl err
      | Inr q \<Rightarrow>
          if lookup f q \<noteq> None then Inl FileExistsError
          else (case lookup f (butlast q) of
                  None \<Rightarrow> Inl FileNotFoundError
                | Some (File _) \<Rightarrow> Inl NotADirectoryError
                | Some Dir \<Rightarrow> Inr (f @ [(q, Dir)])))"

text \<open>Moving the node at \<open>s\<close>, with everything below it, to \<open>d\<close>.\<close>

definition relocate :: "fspath \<Rightarrow> fspath \<Rightarrow> fspath \<times> node \<Rightarrow> fspath \<times> node" where
  "relocate s d = (\<lambda>(r, n). if take (length s) r = s then (d @ drop (length s) r, n) else (r, n))"

definition move :: "filesystem \<Rightarrow> fspath \<Rightarrow> fspath \<Rightarrow> filesystem" where
  "move f s d = map (relocate s d) (filter (\<lambda>(r, n). r \<noteq> d) f)"

definition os_rename :: "filesystem \<Rightarrow> fspath \<Rightarrow> string \<Rightarrow> string \<Rightarrow> error + filesystem" where
  "os_rename f c src dst =
     (case resolve f c src of
        Inl err \<Rightarrow> Inl err
      | Inr s \<Rightarrow>
     (case lookup f s of
        None \<Rightarrow> Inl FileNotFoundError
      | Some sn \<Rightarrow>
     if sn \<noteq> Dir \<and> wants_dir src then Inl NotADirectoryError else
     (case resolve f c dst of
        Inl err \<Rightarrow> Inl err
      | Inr d \<Rightarrow>
     (case lookup f (butlast d) of
        None \<Rightarrow> Inl FileNotFoundError
      | Some (File _) \<Rightarrow> Inl NotADirectoryError
      | Some Dir \<Rightarrow>
          if sn \<noteq> Dir \<and> wants_dir dst then Inl NotADirectoryError
          else if s = d then Inr f
          else if take (length s) d = s then Inl OSError
          else (case lookup f d of
                  None \<Rightarrow> Inr (move f s d)
                | Some (File _) \<Rightarrow>
                    (case sn of File _ \<Rightarrow> Inr (move f s d) | Dir \<Rightarrow> Inl NotADirectoryError)
                | Some Dir \<Rightarrow>
                    (case sn of
                       File _ \<Rightarrow> Inl IsADirectoryError
                     | Dir \<Rightarrow> if children f d \<noteq> [] then Inl OSError else Inr (move f s d)))))))"

text \<open>\<open>open(p, 'w+b')\<close> followed by writing the data.\<close>

definition write_file :: "filesystem \<Rightarrow> fspath \<Rightarrow> string \<Rightarrow> string \<Rightarrow> error + filesystem" where
  "write_file f c p dat =
     (case resolve f c p of
        Inl err \<Rightarrow> Inl err
      | Inr q \<Rightarrow>
          (case lookup f q of
             Some Dir \<Rightarrow> Inl IsADirectoryError
           | Some (File _) \<Rightarrow>
               if wants_dir p then Inl NotADirectoryError
               else Inr (map (\<lambda>(r, n). if r = q then (r, File dat) else (r, n)) f)
           | None \<Rightarrow>
               if wants_dir p then Inl IsADirectoryError
               else (case lookup f (butlast q) of
                       None \<Rightarrow> Inl FileNotFoundError
                     | Some (File _) \<Rightarrow> Inl NotADirectoryError
                     | Some Dir \<Rightarrow> Inr (f @ [(q, File dat)]))))"

text \<open>
  \<open>Image.save(p)\<close> for a path ending in \<open>.png\<close>: the image data is loaded, the file is
  opened for writing, which empties it, then the encoder runs and its bytes are written.
  When the encoder raises, a file that did not exist before the call is removed again,
  and the exception goes on.  The result is the exception, if any, and the file system
  left behind.
\<close>

definition Image_save ::
  "env \<Rightarrow> filesystem \<Rightarrow> fspath \<Rightarrow> image \<Rightarrow> string \<Rightarrow> error option \<times> filesystem" where
  "Image_save en f c im p =
     (case load_image en im of
        Some err \<Rightarrow> (Some err, f)
      | None \<Rightarrow>
     (case write_file f c p [] of
        Inl err \<Rightarrow> (Some err, f)
      | Inr f_open \<Rightarrow>
          (case encode_png en im of
             Inl err \<Rightarrow> (Some err, if os_exists f c p then f_open else f)
           | Inr dat \<Rightarrow>
               (case write_file f_open c p dat of
                  Inl err \<Rightarrow> (Some err, f_open)
                | Inr f_done \<Rightarrow> (None, f_done)))))"

section \<open>emulator_launcher.py: the catalog\<close>

text \<open>
  A game: its name, its emulator, the path of its file, and its normal and hover
  images.  The constructor loads \<open>icon.png\<close> when that is a file and takes the blank image
  otherwise; opening the file and the image work after it can raise.  The widgets are
  presentation and are left out.
\<close>

record game =
  name :: string
  emulator :: emulator
  path :: string
  img :: image
  hover_img :: image

definition Game_init :: "env \<Rightarrow> filesystem \<Rightarrow> fspath \<Rightarrow> string \<Rightarrow> emulator \<Rightarrow> error + game" where
  "Game_init en f c nm emu =
     (let img_path = join (sid emu) [nm, ''icon.png''];
          loaded = (if \<not> os_isfile f c img_path then Inr Blank
                    else open_image en (read_file f c img_path))
      in case loaded of
           Inl err \<Rightarrow> Inl err
         | Inr im \<Rightarrow>
             (case render en im (sid emu) of
                Inl err \<Rightarrow> Inl err
              | Inr (a, b) \<Rightarrow>
                  Inr \<lparr>name = nm,
                       emulator = emu,
                       path = abspath c (sid emu @ ''/'' @ nm @ ''/game.'' @ ext emu),
                       img = a,
                       hover_img = b\<rparr>))"

text \<open>\<open>WrappingFrame.clear\<close> and \<open>WrappingFrame.sort\<close> on the frame's list of games.\<close>

definition WrappingFrame_clear :: "game list \<Rightarrow> game list" where
  "WrappingFrame_clear gs = []"

definition WrappingFrame_sort :: "game list \<Rightarrow> game list" where
  "WrappingFrame_sort gs = sort_key name gs"

text \<open>\<open>App.listdir\<close>; \<open>app_name\<close> defaults to \<open>dir_name\<close>.\<close>

definition reserved :: "string \<Rightarrow> string list" where
  "reserved app_name = [app_name, app_name @ ''.config'', app_name @ ''.home'', app_name @ ''.png'']"

definition App_listdir :: "filesystem \<Rightarrow> fspath \<Rightarrow> string \<Rightarrow> string option \<Rightarrow> error + string list" where
  "App_listdir f c dir_name app_name =
     (let an = (case app_name of None \<Rightarrow> dir_name | Some a \<Rightarrow> a)
      in case os_listdir f c dir_name of
           Inl err \<Rightarrow> Inl err
         | Inr ds \<Rightarrow> Inr (filter (\<lambda>d. d \<notin> set (reserved an)) ds))"

text \<open>
  What the frame's list holds: a game, or an object whose constructor raised.  The
  constructor appends the object to the list before anything else, so such an object
  stays in the list, without a name or an emulator.
\<close>

datatype slot = Built game | Unbuilt

text \<open>The games among the objects of a list.\<close>

fun built :: "slot list \<Rightarrow> game list" where
  "built [] = []"
| "built (Built g # sl) = g # built sl"
| "built (Unbuilt # sl) = built sl"

text \<open>
  The state of the application: the file system and working directory of the process,
  what was printed, the list of the current frame (\<open>None\<close> before the first load), and
  whether the add-game window is shown.
\<close>

datatype printed = Text string | Exc error

datatype outcome = Returned | Raised error

record world =
  fs :: filesystem
  cwd :: fspath
  console :: "printed list"
  games_frame :: "slot list option"
  shown :: bool

text \<open>
  The loops of \<open>load_games\<close>.  The inner loop constructs one game per listed name; the
  outer loop lists each emulator's directory.  An exception leaves the loops with the
  exception and the list as it is then.
\<close>

fun build_loop ::
  "env \<Rightarrow> filesystem \<Rightarrow> fspath \<Rightarrow> emulator \<Rightarrow> string list \<Rightarrow> game list
     \<Rightarrow> (error \<times> slot list) + game list" where
  "build_loop en f c emu [] acc = Inr acc"
| "build_loop en f c emu (d # ds) acc =
     (case Game_init en f c d emu of
        Inl err \<Rightarrow> Inl (err, map Built acc @ [Unbuilt])
      | Inr g \<Rightarrow> build_loop en f c emu ds (acc @ [g]))"

fun load_loop ::
  "env \<Rightarrow> filesystem \<Rightarrow> fspath \<Rightarrow> emulator list \<Rightarrow> game list
     \<Rightarrow> (error \<times> slot list) + game list" where
  "load_loop en f c [] acc = Inr acc"
| "load_loop en f c (emu # emus) acc =
     (case App_listdir f c (sid emu) None of
        Inl err \<Rightarrow> Inl (err, map Built acc)
      | Inr ds \<Rightarrow>
          (case build_loop en f c emu ds acc of
             Inl stop \<Rightarrow> Inl stop
           | Inr acc' \<Rightarrow> load_loop en f c emus acc'))"

definition load_games_of :: "emulator list \<Rightarrow> env \<Rightarrow> world \<Rightarrow> outcome \<times> world" where
  "load_games_of reg en w =
     (case load_loop en (fs w) (cwd w) reg (WrappingFrame_clear []) of
        Inl (err, sl) \<Rightarrow> (Raised err, w\<lparr>games_frame := Some sl\<rparr>)
      | Inr gs \<Rightarrow> (Returned, w\<lparr>games_frame := Some (map Built (WrappingFrame_sort gs))\<rparr>))"

definition load_games :: "env \<Rightarrow> world \<Rightarrow> outcome \<times> world" where
  "load_games en w = load_games_of Emulators_ALL en w"

section \<open>emulator_launcher.py: adding a game\<close>

text \<open>
  The body of the \<open>try\<close>: fetch the image, save it at \<open>icon_path\<close>.  The result is the
  exception, if any, and the file system left behind.
\<close>

definition save_icon ::
  "env \<Rightarrow> filesystem \<Rightarrow> fspath \<Rightarrow> string \<Rightarrow> string \<Rightarrow> error option \<times> filesystem" where
  "save_icon en f c url icon_path =
     (case get_image en url of
        Inl err \<Rightarrow> (Some err, f)
      | Inr im \<Rightarrow> Image_save en f c im icon_path)"

text \<open>
  \<open>AddGame.add_game\<close>, with the three input fields as arguments and \<open>reload_games\<close> the
  callable given to the window.
\<close>

definition add_game ::
  "(world \<Rightarrow> outcome \<times> world) \<Rightarrow> env \<Rightarrow> string \<Rightarrow> string \<Rightarrow> string \<Rightarrow> world \<Rightarrow> outcome \<times> world" where
  "add_game reload_games en file_input name_input icon_input w =
     (let x = drop 1 (snd (splitext file_input))
      in case from_ext x of
           None \<Rightarrow> (Returned, w)
         | Some emu \<Rightarrow>
     (case os_mkdir (fs w) (cwd w) (join (sid emu) [name_input]) of
        Inl err \<Rightarrow> (Raised err, w)
      | Inr f1 \<Rightarrow>
     (case os_rename f1 (cwd w) (''rom zips/'' @ file_input)
             (join (sid emu) [name_input, ''game.'' @ x]) of
        Inl err \<Rightarrow> (Raised err, w\<lparr>fs := f1\<rparr>)
      | Inr f2 \<Rightarrow>
          let icon_path = join (sid emu) [name_input, ''icon.png''];
              w3 = (case save_icon en f2 (cwd w) icon_input icon_path of
                      (Some err, f3) \<Rightarrow>
                        w\<lparr>fs := f3,
                          console := console w @ [Text ''Could not load icon'', Exc err]\<rparr>
                    | (None, f3) \<Rightarrow> w\<lparr>fs := f3\<rparr>)
          in (case reload_games w3 of
                (Raised err, w4) \<Rightarrow> (Raised err, w4)
              | (Returned, w4) \<Rightarrow> (Returned, w4\<lparr>shown := False\<rparr>)))))"

section \<open>Concrete environments\<close>

text \<open>
  A working directory \<open>/srv\<close>.  An outside world in which every binary answers and only
  mGBA is behind its latest release; no icon URL can be reached but one, whose picture
  the PNG encoder refuses; the bytes \<open>junk\<close> are no image.  One in which the mGBA and
  melonDS binaries are missing while Azahar is behind its latest release.  One in which
  the release feed answers the melonDS query without a \<open>tag_name\<close>.
\<close>

definition c0 :: fspath where "c0 = [''srv'']"

definition env_ok :: env where
  "env_ok =
     \<lparr>popen_read = (\<lambda>cmd.
         if cmd = ''/srv/mgba/mgba --version'' then ''mGBA 0.10.3''
         else if cmd = ''/srv/melonds/melonds --help''
         then ''melonDS 1.0'' @ [CHR 0x0A] @ ''Usage: melonds [options]''
         else if cmd = ''/srv/azahar/azahar -v'' then ''Azahar 2123''
         else []),
       get_json = (\<lambda>url.
         if url = ''https://api.github.com/repos/mgba-emu/mgba/releases/latest''
         then Inr [(''name'', ''mGBA 0.10.5''), (''tag_name'', ''0.10.5'')]
         else if url = ''https://api.github.com/repos/melonDS-emu/melonDS/releases/latest''
         then Inr [(''tag_name'', ''1.0'')]
         else if url = ''https://api.github.com/repos/azahar-emu/azahar/releases/latest''
         then Inr [(''tag_name'', ''2123'')]
         else Inl ConnectionError),
       get_image = (\<lambda>url.
         if url = ''http://icons.test/cmyk.jpg'' then Inr (Picture ''cmyk'')
         else Inl ConnectionError),
       load_image = (\<lambda>im. None),
       encode_png = (\<lambda>im. if im = Picture ''cmyk'' then Inl OSError else Inr ''png''),
       open_image = (\<lambda>dat. if dat = ''junk'' then Inl UnidentifiedImageError
                           else Inr (Picture dat)),
       render = (\<lambda>im i. Inr (im, im))\<rparr>"


definition env_feed_limited :: env where
  "env_feed_limited =
     env_ok\<lparr>get_json := (\<lambda>url.
       if url = ''https://api.github.com/repos/melonDS-emu/melonDS/releases/latest''
       then Inr [(''message'', ''API rate limit exceeded'')]
       else get_json env_ok url)\<rparr>"

text \<open>
  A file system below \<open>/srv\<close> with mGBA installed, one game \<open>Pokemon\<close>, the empty
  directories of the other emulators and one file waiting in \<open>rom zips\<close>; the same
  file system after that file was added as game \<open>nm\<close> of mGBA; the first one with an
  \<open>icon.png\<close> for \<open>Pokemon\<close> that is no image; the game \<open>nm\<close> of mGBA without an
  icon; and the states of the application that start from the first and the third file
  system.
\<close>

definition fs0 :: filesystem where
  "fs0 =
     [([''srv''], Dir),
      ([''srv'', ''mgba''], Dir),
      ([''srv'', ''mgba'', ''mgba''], File ''elf''),
      ([''srv'', ''mgba'', ''mgba.config''], Dir),
      ([''srv'', ''mgba'', ''Pokemon''], Dir),
      ([''srv'', ''mgba'', ''Pokemon'', ''game.gba''], File ''rom''),
      ([''srv'', ''dolphin''], Dir),
      ([''srv'', ''melonds''], Dir),
      ([''srv'', ''azahar''], Dir),
      ([''srv'', ''rom zips''], Dir),
      ([''srv'', ''rom zips'', ''zelda.gba''], File ''rom2'')]"

definition fs_added :: "string \<Rightarrow> filesystem" where
  "fs_added nm =
     [([''srv''], Dir),
      ([''srv'', ''mgba''], Dir),
      ([''srv'', ''mgba'', ''mgba''], File ''elf''),
      ([''srv'', ''mgba'', ''mgba.config''], Dir),
      ([''srv'', ''mgba'', ''Pokemon''], Dir),
      ([''srv'', ''mgba'', ''Pokemon'', ''game.gba''], File ''rom''),
      ([''srv'', ''dolphin''], Dir),
      ([''srv'', ''melonds''], Dir),
      ([''srv'', ''azahar''], Dir),
      ([''srv'', ''rom zips''], Dir),
      ([''srv'', ''mgba'', nm, ''game.gba''], File ''rom2''),
      ([''srv'', ''mgba'', nm], Dir)]"

definition fs_junk :: filesystem where
  "fs_junk = fs0 @ [([''srv'', ''mgba'', ''Pokemon'', ''icon.png''], File ''junk'')]"

definition blank_game :: "string \<Rightarrow> game" where
  "blank_game nm =
     \<lparr>name = nm, emulator = MGBA, path = ''/srv/mgba/'' @ nm @ ''/game.gba'',
      img = Blank, hover_img = Blank\<rparr>"

definition w0 :: world where
  "w0 = \<lparr>fs = fs0, cwd = c0, console = [], games_frame = None, shown = True\<rparr>"

definition w_junk :: world where
  "w_junk = \<lparr>fs = fs_junk, cwd = c0, console = [], games_frame = None, shown = True\<rparr>"

section \<open>The registry\<close>

lemmas emu_defs = Emulators_ALL_def MGBA_def DOLPHIN_def MELONDS_def AZAHAR_def Emulator_init_def

lemma from_ext_loop_find: "from_ext_loop es x = List.find (\<lambda>e. ext e = x) es"
  by (induction es) auto

text \<open>
  C5: for every descriptor \<open>d\<close> of the registry, resolving by \<open>d\<close>'s own extension
  returns \<open>d\<close>; resolution is the first match in registration order under equality
  of the extension strings.
\<close>

theorem C5_from_ext_roundtrip:
  "d \<in> set Emulators_ALL \<Longrightarrow>
     from_ext (ext d) = Some d \<and> (\<forall>x. from_ext x = List.find (\<lambda>e. ext e = x) Emulators_ALL)"
proof
  assume "d \<in> set Emulators_ALL"
  then consider "d = MGBA" | "d = DOLPHIN" | "d = MELONDS" | "d = AZAHAR"
    by (auto simp: Emulators_ALL_def)
  then show "from_ext (ext d) = Some d"
  proof cases
    case 1 then show ?thesis by (simp add: from_ext_def emu_defs)
  next
    case 2 then show ?thesis by (simp add: from_ext_def emu_defs)
  next
    case 3 then show ?thesis by (simp add: from_ext_def emu_defs)
  next
    case 4 then show ?thesis by (simp add: from_ext_def emu_defs)
  qed
next
  show "\<forall>x. from_ext x = List.find (\<lambda>e. ext e = x) Emulators_ALL"
    by (simp add: from_ext_def from_ext_loop_find)
qed

text \<open>
  The round trip at mGBA; the comparison is case-sensitive.
\<close>

theorem C5_from_ext_roundtrip_witness:
  "MGBA \<in> set Emulators_ALL \<and> from_ext ''gba'' = Some MGBA \<and> from_ext ''GBA'' = None"
proof -
  have m: "MGBA \<in> set Emulators_ALL" by (simp add: Emulators_ALL_def)
  have x: "ext MGBA = ''gba''" by (simp add: MGBA_def Emulator_init_def)
  have "from_ext ''GBA'' = None" by (simp add: from_ext_def emu_defs)
  with C5_from_ext_roundtrip [OF m, THEN conjunct1] m x show ?thesis by simp
qed


text \<open>
  C10: the registry holds exactly the four descriptors mgba/gba, dolphin/rvz,
  melonds/nds and azahar/cci; the extensions are pairwise distinct, so at most one
  descriptor handles any extension.
\<close>

theorem C10_registry_distinct:
  "map (\<lambda>e. (sid e, ext e)) Emulators_ALL =
     [(''mgba'', ''gba''), (''dolphin'', ''rvz''), (''melonds'', ''nds''), (''azahar'', ''cci'')]
   \<and> distinct (map ext Emulators_ALL)
   \<and> (\<forall>x. length (filter (\<lambda>e. ext e = x) Emulators_ALL) \<le> 1)"
  by (auto simp: emu_defs)

section \<open>Sorting the catalog\<close>

text \<open>
  C9: sorting the catalog is idempotent; the result is ordered by name (code point
  order of the strings), has the same games, and keeps games of equal name in their
  order (the sort is stable).
\<close>

theorem C9_sort_idempotent:
  "WrappingFrame_sort (WrappingFrame_sort gs) = WrappingFrame_sort gs
   \<and> sorted (map name (WrappingFrame_sort gs))
   \<and> mset (WrappingFrame_sort gs) = mset gs
   \<and> (\<forall>k. filter (\<lambda>g. name g = k) (WrappingFrame_sort gs) = filter (\<lambda>g. name g = k) gs)"
  unfolding WrappingFrame_sort_def
  by (simp add: sort_key_id_if_sorted sort_key_stable)

section \<open>The version check\<close>

lemma abspath_c0:
  "abspath c0 ''mgba/mgba'' = ''/srv/mgba/mgba''"
  "abspath c0 ''melonds/melonds'' = ''/srv/melonds/melonds''"
  "abspath c0 ''azahar/azahar'' = ''/srv/azahar/azahar''"
  by (simp_all add: abspath_def c0_def getcwd_def join_def normpath_def)

lemma popen_ok:
  "popen_read env_ok ''/srv/mgba/mgba --version'' = ''mGBA 0.10.3''"
  "popen_read env_ok ''/srv/melonds/melonds --help'' =
     ''melonDS 1.0'' @ [CHR 0x0A] @ ''Usage: melonds [options]''"
  "popen_read env_ok ''/srv/azahar/azahar -v'' = ''Azahar 2123''"
  by (simp_all add: env_ok_def)


lemma json_ok:
  "get_json env_ok ''https://api.github.com/repos/mgba-emu/mgba/releases/latest'' =
     Inr [(''name'', ''mGBA 0.10.5''), (''tag_name'', ''0.10.5'')]"
  "get_json env_ok ''https://api.github.com/repos/melonDS-emu/melonDS/releases/latest'' =
     Inr [(''tag_name'', ''1.0'')]"
  "get_json env_ok ''https://api.github.com/repos/azahar-emu/azahar/releases/latest'' =
     Inr [(''tag_name'', ''2123'')]"
  by (simp_all add: env_ok_def)


lemma installed_ok:
  "installed_version env_ok c0 MGBA = Inr ''0.10.3''"
  "installed_version env_ok c0 DOLPHIN = Inr ''auto''"
  "installed_version env_ok c0 MELONDS = Inr ''1.0''"
  "installed_version env_ok c0 AZAHAR = Inr ''2123''"
  by (simp_all add: installed_version_def MGBA_def DOLPHIN_def MELONDS_def AZAHAR_def
        Emulator_init_def abspath_c0 popen_ok split_ws_def is_space_def index_def)

lemma latest_ok:
  "latest_version env_ok MGBA = Inr ''0.10.5''"
  "latest_version env_ok DOLPHIN = Inr ''auto''"
  "latest_version env_ok MELONDS = Inr ''1.0''"
  "latest_version env_ok AZAHAR = Inr ''2123''"
  by (simp_all add: latest_version_def MGBA_def DOLPHIN_def MELONDS_def AZAHAR_def
        Emulator_init_def json_ok getitem_def)




lemma check_loop_ok:
  "\<forall>e\<in>set es. installed_version en c e = Inr (iv e) \<and> latest_version en e = Inr (lv e) \<Longrightarrow>
   check_loop en c es acc =
     Inr (acc @ map (\<lambda>e. (iv e, lv e, e)) (filter (\<lambda>e. iv e \<noteq> lv e) es))"
  by (induction es arbitrary: acc) auto

lemma check_loop_reports:
  "check_loop en c es acc = Inr rs \<Longrightarrow> r \<in> set rs \<Longrightarrow>
   r \<in> set acc \<or>
   (\<exists>e v0 v1. r = (v0, v1, e) \<and> e \<in> set es \<and> installed_version en c e = Inr v0
        \<and> latest_version en e = Inr v1 \<and> v0 \<noteq> v1)"
proof (induction es arbitrary: acc)
  case Nil
  then show ?case by simp
next
  case (Cons a es)
  from Cons.prems(1) obtain v0 v1 where
    i: "installed_version en c a = Inr v0" and l: "latest_version en a = Inr v1"
    and rest: "check_loop en c es (if v0 \<noteq> v1 then acc @ [(v0, v1, a)] else acc) = Inr rs"
    by (auto split: sum.splits)
  from Cons.IH [OF rest Cons.prems(2)] i l show ?case
    by (auto split: if_splits)
qed

lemma check_ok_value:
  "check_emu_versions env_ok c0 = Inr (Some (EmuOutdated_init [(''0.10.3'', ''0.10.5'', MGBA)]))"
  by (simp add: check_emu_versions_def check_versions_of_def Emulators_ALL_def installed_ok latest_ok)





text \<open>
  C6, as amended: when every probe returns, the version check returns one report
  \<open>(installed, latest, emulator)\<close> for each emulator whose two versions differ, in registry
  order, and none for the others; the window is opened, with one label per report, only
  when there is a report.
\<close>

theorem C6_reports_exactly_mismatches:
  assumes "\<forall>e\<in>set Emulators_ALL.
             installed_version en c e = Inr (iv e) \<and> latest_version en e = Inr (lv e)"
  shows "check_emu_versions en c =
           Inr (let rs = map (\<lambda>e. (iv e, lv e, e)) (filter (\<lambda>e. iv e \<noteq> lv e) Emulators_ALL)
                in if rs \<noteq> [] then Some \<lparr>outdated = rs, labels = map label_text rs\<rparr> else None)"
  using check_loop_ok [OF assms, of "[]"]
  by (simp add: check_emu_versions_def check_versions_of_def EmuOutdated_init_def Let_def)

text \<open>
  With only mGBA behind, exactly one report, naming both versions and the emulator.
\<close>

theorem C6_reports_exactly_mismatches_witness:
  "check_emu_versions env_ok c0 =
     Inr (Some \<lparr>outdated = [(''0.10.3'', ''0.10.5'', MGBA)],
                labels = [''mgba is outdated!'' @ [CHR 0x0A] @ ''installed: 0.10.3''
                            @ [CHR 0x0A] @ ''latest: 0.10.5'']\<rparr>)"
proof -
  let ?iv = "\<lambda>e. projr (installed_version env_ok c0 e)"
  let ?lv = "\<lambda>e. projr (latest_version env_ok e)"
  have h: "\<forall>e\<in>set Emulators_ALL.
             installed_version env_ok c0 e = Inr (?iv e) \<and> latest_version env_ok e = Inr (?lv e)"
    by (simp add: Emulators_ALL_def installed_ok latest_ok)
  have l: "label_text (''0.10.3'', ''0.10.5'', MGBA) =
             ''mgba is outdated!'' @ [CHR 0x0A] @ ''installed: 0.10.3''
                            @ [CHR 0x0A] @ ''latest: 0.10.5''"
    by (simp add: label_text_def MGBA_def Emulator_init_def)
  from C6_reports_exactly_mismatches [of env_ok c0 ?iv ?lv, OF h] l show ?thesis
    by (simp add: Emulators_ALL_def installed_ok latest_ok)
qed

lemma feed_limited_probes:
  "installed_version env_feed_limited c0 MGBA = Inr ''0.10.3''"
  "latest_version env_feed_limited MGBA = Inr ''0.10.5''"
  "installed_version env_feed_limited c0 DOLPHIN = Inr ''auto''"
  "latest_version env_feed_limited DOLPHIN = Inr ''auto''"
  "installed_version env_feed_limited c0 MELONDS = Inr ''1.0''"
  "latest_version env_feed_limited MELONDS = Inl KeyError"
proof -
  have p: "popen_read env_feed_limited = popen_read env_ok"
    by (simp add: env_feed_limited_def)
  have j1: "get_json env_feed_limited ''https://api.github.com/repos/mgba-emu/mgba/releases/latest''
              = Inr [(''name'', ''mGBA 0.10.5''), (''tag_name'', ''0.10.5'')]"
    by (simp add: env_feed_limited_def json_ok)
  have j2: "get_json env_feed_limited
              ''https://api.github.com/repos/melonDS-emu/melonDS/releases/latest''
              = Inr [(''message'', ''API rate limit exceeded'')]"
    by (simp add: env_feed_limited_def)
  have iv: "installed_version env_feed_limited c0 e = installed_version env_ok c0 e" for e
    by (simp only: installed_version_def p)
  show "installed_version env_feed_limited c0 MGBA = Inr ''0.10.3''"
    by (simp only: iv installed_ok)
  show "installed_version env_feed_limited c0 DOLPHIN = Inr ''auto''"
    by (simp only: iv installed_ok)
  show "installed_version env_feed_limited c0 MELONDS = Inr ''1.0''"
    by (simp only: iv installed_ok)
  show "latest_version env_feed_limited MGBA = Inr ''0.10.5''"
    by (simp add: latest_version_def MGBA_def Emulator_init_def j1 getitem_def)
  show "latest_version env_feed_limited DOLPHIN = Inr ''auto''"
    by (simp add: latest_version_def DOLPHIN_def Emulator_init_def)
  show "latest_version env_feed_limited MELONDS = Inl KeyError"
    by (simp add: latest_version_def MELONDS_def Emulator_init_def j2 getitem_def)
qed

text \<open>
  C6 as stated fails: mGBA's installed and latest versions differ, but the release feed
  answers the melonDS query without a \<open>tag_name\<close>, the check raises KeyError, and no
  report is produced for mGBA.
\<close>

theorem C6_counterexample:
  "installed_version env_feed_limited c0 MGBA = Inr ''0.10.3''
   \<and> latest_version env_feed_limited MGBA = Inr ''0.10.5''
   \<and> check_emu_versions env_feed_limited c0 = Inl KeyError"
  by (simp add: check_emu_versions_def check_versions_of_def Emulators_ALL_def
        feed_limited_probes)

text \<open>
  C7: a registered descriptor with an empty release source has installed and latest
  version both equal to the sentinel \<open>auto\<close>, whatever the outside world, and is never
  among the reports of the version check.
\<close>

theorem C7_untracked_never_outdated:
  assumes "e \<in> set Emulators_ALL" and "gh_path e = []"
  shows "installed_version en c e = Inr ''auto'' \<and> latest_version en e = Inr ''auto''
         \<and> (\<forall>w. check_emu_versions en c = Inr (Some w) \<longrightarrow> e \<notin> (snd \<circ> snd) ` set (outdated w))"
proof -
  from assms have d: "e = DOLPHIN"
    by (auto simp: Emulators_ALL_def MGBA_def DOLPHIN_def MELONDS_def AZAHAR_def Emulator_init_def)
  have i: "installed_version en c e = Inr ''auto''"
    by (simp add: d installed_version_def DOLPHIN_def Emulator_init_def)
  have l: "latest_version en e = Inr ''auto''"
    by (simp add: d latest_version_def DOLPHIN_def Emulator_init_def)
  have "e \<notin> (snd \<circ> snd) ` set (outdated w)" if w: "check_emu_versions en c = Inr (Some w)" for w
  proof
    assume "e \<in> (snd \<circ> snd) ` set (outdated w)"
    then obtain v0 v1 where r: "(v0, v1, e) \<in> set (outdated w)" by auto
    from w obtain rs where rs: "check_loop en c Emulators_ALL [] = Inr rs"
      and ww: "w = EmuOutdated_init rs"
      by (auto simp: check_emu_versions_def check_versions_of_def split: sum.splits if_splits)
    from r ww have "(v0, v1, e) \<in> set rs" by (simp add: EmuOutdated_init_def)
    from check_loop_reports [OF rs this] i l show False by auto
  qed
  with i l show ?thesis by blast
qed

text \<open>
  Dolphin is not in the report of the check that reports mGBA.
\<close>

theorem C7_untracked_never_outdated_witness:
  "DOLPHIN \<in> set Emulators_ALL \<and> gh_path DOLPHIN = []
   \<and> installed_version env_ok c0 DOLPHIN = Inr ''auto''
   \<and> latest_version env_ok DOLPHIN = Inr ''auto''
   \<and> check_emu_versions env_ok c0 = Inr (Some (EmuOutdated_init [(''0.10.3'', ''0.10.5'', MGBA)]))
   \<and> DOLPHIN \<notin> (snd \<circ> snd) ` set (outdated (EmuOutdated_init [(''0.10.3'', ''0.10.5'', MGBA)]))"
proof -
  have m: "DOLPHIN \<in> set Emulators_ALL" by (simp add: Emulators_ALL_def)
  have g: "gh_path DOLPHIN = []" by (simp add: DOLPHIN_def Emulator_init_def)
  from C7_untracked_never_outdated [OF m g, of env_ok c0] check_ok_value m g
  show ?thesis by blast
qed

section \<open>Paths and the file system\<close>

lemma split_on_no_sep: "sep \<notin> set s \<Longrightarrow> split_on sep s = [s]"
  by (induction s) auto

lemma split_on_append: "sep \<notin> set a \<Longrightarrow> split_on sep (a @ sep # b) = a # split_on sep b"
  by (induction a) auto

lemma components_one: "a \<noteq> [] \<Longrightarrow> CHR ''/'' \<notin> set a \<Longrightarrow> components a = [a]"
  by (simp add: components_def split_on_no_sep)

lemma components_append:
  "a \<noteq> [] \<Longrightarrow> CHR ''/'' \<notin> set a \<Longrightarrow> components (a @ CHR ''/'' # b) = a # components b"
  by (simp add: components_def split_on_append)

lemma take1_slash: "take 1 b = ''/'' \<longleftrightarrow> (b \<noteq> [] \<and> hd b = CHR ''/'')"
  by (cases b) auto

lemma join_one:
  "a \<noteq> [] \<Longrightarrow> last a \<noteq> CHR ''/'' \<Longrightarrow> CHR ''/'' \<notin> set b \<Longrightarrow> join a [b] = a @ ''/'' @ b"
  by (cases b) (auto simp: join_def)

lemma join_two:
  "a \<noteq> [] \<Longrightarrow> last a \<noteq> CHR ''/'' \<Longrightarrow> b \<noteq> [] \<Longrightarrow> CHR ''/'' \<notin> set b \<Longrightarrow> CHR ''/'' \<notin> set d
   \<Longrightarrow> join a [b, d] = a @ ''/'' @ b @ ''/'' @ d"
proof -
  assume a: "a \<noteq> []" "last a \<noteq> CHR ''/''" and b: "b \<noteq> []" "CHR ''/'' \<notin> set b"
    and d: "CHR ''/'' \<notin> set d"
  from b have lb: "last b \<noteq> CHR ''/''" using last_in_set [of b] by metis
  from b have tb: "take 1 b \<noteq> ''/''" by (cases b) auto
  from d have td: "take 1 d \<noteq> ''/''" by (cases d) auto
  from a b lb tb td show ?thesis by (simp add: join_def)
qed

lemma walk_one:
  "walk f c [a] = Inr q \<Longrightarrow> a \<notin> {''.'', ''..''} \<Longrightarrow> q = c @ [a] \<and> lookup f c = Some Dir"
  by (auto simp: step_def split: option.splits node.splits)

lemma walk_two_step:
  "walk f c [a, b] = Inr q \<Longrightarrow> a \<notin> {''.'', ''..''} \<Longrightarrow>
   q = step (c @ [a]) b \<and> lookup f c = Some Dir \<and> lookup f (c @ [a]) = Some Dir"
  by (auto simp: step_def split: option.splits node.splits)

lemma walk_two:
  "walk f c [a, b] = Inr q \<Longrightarrow> a \<notin> {''.'', ''..''} \<Longrightarrow> b \<notin> {''.'', ''..''} \<Longrightarrow>
   q = c @ [a, b] \<and> lookup f c = Some Dir \<and> lookup f (c @ [a]) = Some Dir"
  by (auto simp: step_def split: option.splits node.splits)

lemma walk_three:
  "walk f c [a, b, d] = Inr q \<Longrightarrow> a \<notin> {''.'', ''..''} \<Longrightarrow> b \<notin> {''.'', ''..''} \<Longrightarrow>
   d \<notin> {''.'', ''..''} \<Longrightarrow> q = c @ [a, b, d]"
  by (auto simp: step_def split: option.splits node.splits)

lemma mkdir_creates:
  assumes "os_mkdir f c p = Inr f1"
  obtains q where "resolve f c p = Inr q" "lookup f q = None" "f1 = f @ [(q, Dir)]"
    "lookup f1 q = Some Dir"
proof -
  from assms obtain q where q: "resolve f c p = Inr q" "lookup f q = None" "f1 = f @ [(q, Dir)]"
    by (auto simp: os_mkdir_def split: sum.splits if_splits option.splits node.splits)
  from q(2) have "q \<noteq> []" "map_of f q = None" by (auto simp: lookup_def split: if_splits)
  with q(3) have "lookup f1 q = Some Dir" by (simp add: lookup_def map_add_def)
  with q show ?thesis using that by blast
qed

lemma rename_result:
  assumes "os_rename f c src dst = Inr f2"
  obtains s d where "resolve f c src = Inr s" "resolve f c dst = Inr d"
    "f2 = f \<or> (f2 = move f s d \<and> take (length s) d \<noteq> s)"
  using assms
  by (auto simp: os_rename_def split: sum.splits if_splits option.splits node.splits)

lemma move_keeps:
  assumes "(r, n) \<in> set f" "r \<noteq> d" "take (length s) r \<noteq> s"
  shows "(r, n) \<in> set (move f s d)"
proof -
  from assms(1,2) have "(r, n) \<in> set (filter (\<lambda>(r, n). r \<noteq> d) f)" by simp
  then have "relocate s d (r, n) \<in> set (move f s d)" unfolding move_def set_map by (rule imageI)
  with assms(3) show ?thesis by (simp add: relocate_def)
qed

lemma children_mem:
  "(q @ [x], n) \<in> set f \<Longrightarrow> x \<in> set (children f q)"
  by (force simp: children_def)

lemma registry_member:
  assumes "e \<in> set Emulators_ALL"
  shows "sid e \<noteq> [] \<and> last (sid e) \<noteq> CHR ''/'' \<and> CHR ''/'' \<notin> set (sid e)
     \<and> sid e \<noteq> ''.'' \<and> sid e \<noteq> ''..'' \<and> CHR ''/'' \<notin> set (ext e)"
proof -
  from assms consider "e = MGBA" | "e = DOLPHIN" | "e = MELONDS" | "e = AZAHAR"
    by (auto simp: Emulators_ALL_def)
  then show ?thesis
  proof cases
    case 1 then show ?thesis by (simp add: MGBA_def Emulator_init_def)
  next
    case 2 then show ?thesis by (simp add: DOLPHIN_def Emulator_init_def)
  next
    case 3 then show ?thesis by (simp add: MELONDS_def Emulator_init_def)
  next
    case 4 then show ?thesis by (simp add: AZAHAR_def Emulator_init_def)
  qed
qed

lemma from_ext_member: "from_ext x = Some e \<Longrightarrow> e \<in> set Emulators_ALL \<and> ext e = x"
  by (auto simp: from_ext_def from_ext_loop_find find_Some_iff)

lemma resolve_two_walk:
  assumes a: "a \<noteq> []" "last a \<noteq> CHR ''/''" "CHR ''/'' \<notin> set a"
    and b: "b \<noteq> []" "CHR ''/'' \<notin> set b"
  shows "resolve f c (join a [b]) = walk f c [a, b]"
proof -
  from a b have j: "join a [b] = a @ ''/'' @ b" by (simp add: join_one)
  from a have t: "take 1 (a @ ''/'' @ b) \<noteq> ''/''" by (cases a) auto
  from a b have s: "components (a @ ''/'' @ b) = [a, b]"
    by (simp add: components_append components_one)
  from j t s a show ?thesis by (simp add: resolve_def)
qed

lemma resolve_three_walk:
  assumes a: "a \<noteq> []" "last a \<noteq> CHR ''/''" "CHR ''/'' \<notin> set a"
    and b: "b \<noteq> []" "CHR ''/'' \<notin> set b"
    and d: "d \<noteq> []" "CHR ''/'' \<notin> set d"
  shows "resolve f c (join a [b, d]) = walk f c [a, b, d]"
proof -
  from a b d have j: "join a [b, d] = a @ ''/'' @ b @ ''/'' @ d" by (simp add: join_two)
  from a have t: "take 1 (a @ ''/'' @ b @ ''/'' @ d) \<noteq> ''/''" by (cases a) auto
  from a b d have s: "components (a @ ''/'' @ b @ ''/'' @ d) = [a, b, d]"
    by (simp add: components_append components_one)
  from j t s a show ?thesis by (simp add: resolve_def)
qed

lemma listdir_one:
  assumes a: "a \<noteq> []" "CHR ''/'' \<notin> set a" "a \<noteq> ''.''" "a \<noteq> ''..''"
    and l: "os_listdir f c a = Inr ds"
  shows "ds = children f (c @ [a])"
proof -
  from l obtain q where q: "resolve f c a = Inr q" and ds: "ds = children f q"
    by (auto simp: os_listdir_def split: sum.splits option.splits node.splits)
  from a have t: "take 1 a \<noteq> ''/''" by (cases a) auto
  from a t have "resolve f c a = walk f c [a]" by (simp add: resolve_def components_one)
  with q have "walk f c [a] = Inr q" by simp
  from walk_one [OF this] a ds show ?thesis by simp
qed

lemma mkdir_ordinary_name:
  assumes a: "a \<noteq> []" "last a \<noteq> CHR ''/''" "CHR ''/'' \<notin> set a" "a \<noteq> ''.''" "a \<noteq> ''..''"
    and b: "b \<noteq> []" "CHR ''/'' \<notin> set b"
    and mk: "os_mkdir f c (join a [b]) = Inr f1"
  shows "b \<noteq> ''.'' \<and> b \<noteq> ''..''"
proof -
  from mkdir_creates [OF mk] obtain q where
    q: "resolve f c (join a [b]) = Inr q" and n: "lookup f q = None" by metis
  from q resolve_two_walk [OF a(1-3) b] have "walk f c [a, b] = Inr q" by simp
  from walk_two_step [OF this] a
  have st: "q = step (c @ [a]) b" and l0: "lookup f c = Some Dir"
    and l1: "lookup f (c @ [a]) = Some Dir" by auto
  show ?thesis
  proof (rule ccontr)
    assume "\<not> (b \<noteq> ''.'' \<and> b \<noteq> ''..'')"
    then have "q = c @ [a] \<or> q = c" using st by (auto simp: step_def)
    with l0 l1 n show False by auto
  qed
qed

text \<open>
  After a game directory was made and a file moved into it, the directory is an entry
  of the file system, directly below the emulator's directory.
\<close>

lemma added_directory_entry:
  assumes e: "emu \<in> set Emulators_ALL"
    and ne: "nm \<noteq> []" and sl: "CHR ''/'' \<notin> set nm"
    and mk: "os_mkdir f c (join (sid emu) [nm]) = Inr f1"
    and mv: "os_rename f1 c src (join (sid emu) [nm, ''game.'' @ ext emu]) = Inr f2"
  shows "(c @ [sid emu, nm], Dir) \<in> set f2"
proof -
  note m = registry_member [OF e]
  from m ne sl mk have dots: "nm \<noteq> ''.'' \<and> nm \<noteq> ''..''"
    by (intro mkdir_ordinary_name [of "sid emu" nm f c f1]) auto
  from mkdir_creates [OF mk] obtain q where
    q: "resolve f c (join (sid emu) [nm]) = Inr q" and f1: "f1 = f @ [(q, Dir)]" by metis
  from m ne sl have "resolve f c (join (sid emu) [nm]) = walk f c [sid emu, nm]"
    by (intro resolve_two_walk) auto
  with q have "walk f c [sid emu, nm] = Inr q" by simp
  from walk_two [OF this] m dots have qq: "q = c @ [sid emu, nm]" by auto
  from rename_result [OF mv] obtain s d where
    d: "resolve f1 c (join (sid emu) [nm, ''game.'' @ ext emu]) = Inr d"
    and f2: "f2 = f1 \<or> (f2 = move f1 s d \<and> take (length s) d \<noteq> s)" by metis
  from m ne sl have "resolve f1 c (join (sid emu) [nm, ''game.'' @ ext emu])
      = walk f1 c [sid emu, nm, ''game.'' @ ext emu]"
    by (intro resolve_three_walk) auto
  with d have "walk f1 c [sid emu, nm, ''game.'' @ ext emu] = Inr d" by simp
  from walk_three [OF this] m dots have dd: "d = c @ [sid emu, nm, ''game.'' @ ext emu]" by auto
  have in1: "(q, Dir) \<in> set f1" by (simp add: f1)
  have "(q, Dir) \<in> set f2"
  proof (cases "f2 = f1")
    case True
    with in1 show ?thesis by simp
  next
    case False
    with f2 have mvd: "f2 = move f1 s d" and np: "take (length s) d \<noteq> s" by auto
    have "take (length s) q \<noteq> s"
    proof
      assume t: "take (length s) q = s"
      from arg_cong [OF t, of length] have "length s \<le> length q" by simp
      moreover have "d = q @ [''game.'' @ ext emu]" by (simp add: qq dd)
      ultimately have "take (length s) d = take (length s) q" by simp
      with t np show False by simp
    qed
    moreover have "q \<noteq> d" by (simp add: qq dd)
    ultimately show ?thesis using in1 by (simp add: mvd move_keeps)
  qed
  then show ?thesis by (simp add: qq)
qed

text \<open>Writing a file keeps every location, and changes the node at its own only.\<close>

lemma map_of_replace_other:
  "k \<noteq> q \<Longrightarrow> map_of (map (\<lambda>(r, n). if r = q then (r, v) else (r, n)) f) k = map_of f k"
  by (induction f) auto

lemma write_file_effect:
  assumes "write_file f c p dat = Inr f'"
  obtains q where "resolve f c p = Inr q" "\<forall>k. k \<noteq> q \<longrightarrow> lookup f' k = lookup f k"
    "fst ` set f \<subseteq> fst ` set f'"
proof -
  from assms obtain q where q: "resolve f c p = Inr q"
    and f': "f' = map (\<lambda>(r, n). if r = q then (r, File dat) else (r, n)) f \<or> f' = f @ [(q, File dat)]"
    by (auto simp: write_file_def split: sum.splits if_splits option.splits node.splits)
  from f' have 1: "\<forall>k. k \<noteq> q \<longrightarrow> lookup f' k = lookup f k"
    by (auto simp: lookup_def map_of_replace_other map_add_def split: option.splits)
  from f' have 2: "fst ` set f \<subseteq> fst ` set f'"
  proof
    assume "f' = map (\<lambda>(r, n). if r = q then (r, File dat) else (r, n)) f"
    then have "map fst f' = map fst f" by (auto simp: case_prod_beta)
    then have "fst ` set f' = fst ` set f" by (metis set_map)
    then show ?thesis by simp
  next
    assume "f' = f @ [(q, File dat)]"
    then show ?thesis by auto
  qed
  from q 1 2 show ?thesis using that by blast
qed

lemma Image_save_failure:
  assumes "Image_save en f c im p = (Some err, f')"
  shows "(\<forall>k. resolve f c p \<noteq> Inr k \<longrightarrow> lookup f' k = lookup f k) \<and> fst ` set f \<subseteq> fst ` set f'"
proof (cases "f' = f")
  case True
  then show ?thesis by simp
next
  case False
  with assms obtain f_open where "write_file f c p [] = Inr f_open" and "f' = f_open"
    by (auto simp: Image_save_def split: option.splits sum.splits if_splits)
  with write_file_effect [of f c p "[]" f_open] show ?thesis by metis
qed

lemma save_icon_failure:
  assumes "save_icon en f c url p = (Some err, f')"
  shows "(\<forall>k. resolve f c p \<noteq> Inr k \<longrightarrow> lookup f' k = lookup f k) \<and> fst ` set f \<subseteq> fst ` set f'"
proof (cases "get_image en url")
  case (Inl a)
  with assms show ?thesis by (simp add: save_icon_def)
next
  case (Inr im)
  with assms have "Image_save en f c im p = (Some err, f')" by (simp add: save_icon_def)
  then show ?thesis by (rule Image_save_failure)
qed

section \<open>Evaluation on the concrete file system\<close>

lemma ext_of_file:
  "drop 1 (snd (splitext ''zelda.gba'')) = ''gba''"
  "drop 1 (snd (splitext ''metroid.gba'')) = ''gba''"
  "drop 1 (snd (splitext ''zelda.xyz'')) = ''xyz''"
  by (simp_all add: splitext_def rfind_def Let_def)

lemmas ext_of_file_Suc = ext_of_file [unfolded One_nat_def]

lemma from_ext_values: "from_ext ''gba'' = Some MGBA" "from_ext ''xyz'' = None"
  by (simp_all add: from_ext_def emu_defs)

lemma mgba_fields: "sid MGBA = ''mgba''" "ext MGBA = ''gba''"
  by (simp_all add: MGBA_def Emulator_init_def)

lemma sids:
  "sid MGBA = ''mgba''" "sid DOLPHIN = ''dolphin''" "sid MELONDS = ''melonds''" "sid AZAHAR = ''azahar''"
  by (simp_all add: MGBA_def DOLPHIN_def MELONDS_def AZAHAR_def Emulator_init_def)

lemma joins:
  "join ''mgba'' [''Zelda''] = ''mgba/Zelda''"
  "join ''mgba'' [''Zelda'', ''game.gba''] = ''mgba/Zelda/game.gba''"
  "join ''mgba'' [''Zelda'', ''icon.png''] = ''mgba/Zelda/icon.png''"
  "join ''mgba'' [''Metroid''] = ''mgba/Metroid''"
  "join ''mgba'' [''Metroid'', ''game.gba''] = ''mgba/Metroid/game.gba''"
  "join ''mgba'' [''mgba.home''] = ''mgba/mgba.home''"
  "join ''mgba'' [''mgba.home'', ''game.gba''] = ''mgba/mgba.home/game.gba''"
  "join ''mgba'' [''mgba.home'', ''icon.png''] = ''mgba/mgba.home/icon.png''"
  "join ''mgba'' [''Pokemon'', ''icon.png''] = ''mgba/Pokemon/icon.png''"
  by (simp_all add: join_def)

lemma comps:
  "components ''mgba/Zelda'' = [''mgba'', ''Zelda'']"
  "components ''mgba/Zelda/game.gba'' = [''mgba'', ''Zelda'', ''game.gba'']"
  "components ''mgba/Zelda/icon.png'' = [''mgba'', ''Zelda'', ''icon.png'']"
  "components ''mgba/Metroid'' = [''mgba'', ''Metroid'']"
  "components ''mgba/Metroid/game.gba'' = [''mgba'', ''Metroid'', ''game.gba'']"
  "components ''mgba/mgba.home'' = [''mgba'', ''mgba.home'']"
  "components ''mgba/mgba.home/game.gba'' = [''mgba'', ''mgba.home'', ''game.gba'']"
  "components ''mgba/mgba.home/icon.png'' = [''mgba'', ''mgba.home'', ''icon.png'']"
  "components ''mgba/Pokemon/icon.png'' = [''mgba'', ''Pokemon'', ''icon.png'']"
  "components ''rom zips/zelda.gba'' = [''rom zips'', ''zelda.gba'']"
  "components ''rom zips/metroid.gba'' = [''rom zips'', ''metroid.gba'']"
  "components ''mgba'' = [''mgba'']"
  "components ''dolphin'' = [''dolphin'']"
  "components ''melonds'' = [''melonds'']"
  "components ''azahar'' = [''azahar'']"
  by (simp_all add: components_def)

lemmas fs_eval = resolve_def comps c0_def lookup_def step_def children_def wants_dir_def

lemma mkdir_metroid:
  "os_mkdir fs0 c0 ''mgba/Metroid'' = Inr (fs0 @ [([''srv'', ''mgba'', ''Metroid''], Dir)])"
  by (simp add: os_mkdir_def fs_eval fs0_def)

lemma rename_metroid:
  "os_rename (fs0 @ [([''srv'', ''mgba'', ''Metroid''], Dir)]) c0
     ''rom zips/metroid.gba'' ''mgba/Metroid/game.gba'' = Inl FileNotFoundError"
  by (simp add: os_rename_def fs_eval fs0_def)

lemma lookup_metroid:
  "resolve fs0 c0 ''mgba/Metroid'' = Inr [''srv'', ''mgba'', ''Metroid'']"
  "lookup fs0 [''srv'', ''mgba'', ''Metroid''] = None"
  "lookup (fs0 @ [([''srv'', ''mgba'', ''Metroid''], Dir)]) [''srv'', ''mgba'', ''Metroid''] = Some Dir"
  by (simp_all add: fs_eval fs0_def)

lemma mkdir_zelda:
  "os_mkdir fs0 c0 ''mgba/Zelda'' = Inr (fs0 @ [([''srv'', ''mgba'', ''Zelda''], Dir)])"
  by (simp add: os_mkdir_def fs_eval fs0_def)

lemma rename_zelda:
  "os_rename (fs0 @ [([''srv'', ''mgba'', ''Zelda''], Dir)]) c0
     ''rom zips/zelda.gba'' ''mgba/Zelda/game.gba'' = Inr (fs_added ''Zelda'')"
  by (simp add: os_rename_def fs_eval fs0_def fs_added_def move_def relocate_def)

lemma mkdir_home:
  "os_mkdir fs0 c0 ''mgba/mgba.home'' = Inr (fs0 @ [([''srv'', ''mgba'', ''mgba.home''], Dir)])"
  by (simp add: os_mkdir_def fs_eval fs0_def)

lemma rename_home:
  "os_rename (fs0 @ [([''srv'', ''mgba'', ''mgba.home''], Dir)]) c0
     ''rom zips/zelda.gba'' ''mgba/mgba.home/game.gba'' = Inr (fs_added ''mgba.home'')"
  by (simp add: os_rename_def fs_eval fs0_def fs_added_def move_def relocate_def)

lemma listdir_fs0:
  "os_listdir fs0 c0 ''mgba'' = Inr [''mgba'', ''mgba.config'', ''Pokemon'']"
  by (simp add: os_listdir_def fs_eval fs0_def)

lemma listdir_junk:
  "os_listdir fs_junk c0 ''mgba'' = Inr [''mgba'', ''mgba.config'', ''Pokemon'']"
  by (simp add: os_listdir_def fs_eval fs_junk_def fs0_def)

lemma listdir_zelda:
  "os_listdir (fs_added ''Zelda'') c0 ''mgba'' = Inr [''mgba'', ''mgba.config'', ''Pokemon'', ''Zelda'']"
  "os_listdir (fs_added ''Zelda'') c0 ''dolphin'' = Inr []"
  "os_listdir (fs_added ''Zelda'') c0 ''melonds'' = Inr []"
  "os_listdir (fs_added ''Zelda'') c0 ''azahar'' = Inr []"
  by (simp_all add: os_listdir_def fs_eval fs_added_def)

lemma listdir_home:
  "os_listdir (fs_added ''mgba.home'') c0 ''mgba'' =
     Inr [''mgba'', ''mgba.config'', ''Pokemon'', ''mgba.home'']"
  "os_listdir (fs_added ''mgba.home'') c0 ''dolphin'' = Inr []"
  "os_listdir (fs_added ''mgba.home'') c0 ''melonds'' = Inr []"
  "os_listdir (fs_added ''mgba.home'') c0 ''azahar'' = Inr []"
  by (simp_all add: os_listdir_def fs_eval fs_added_def)

lemma lookup_home:
  "lookup (fs_added ''mgba.home'') [''srv'', ''mgba'', ''mgba.home''] = Some Dir"
  "lookup (fs_added ''mgba.home'') [''srv'', ''mgba'', ''mgba.home'', ''game.gba''] = Some (File ''rom2'')"
  "lookup (fs_added ''mgba.home'') [''srv'', ''rom zips'', ''zelda.gba''] = None"
  by (simp_all add: lookup_def fs_added_def)

lemma w0_fields: "fs w0 = fs0" "cwd w0 = c0" "console w0 = []" "shown w0 = True"
  by (simp_all add: w0_def)

lemma w_junk_fields: "fs w_junk = fs_junk" "cwd w_junk = c0"
  by (simp_all add: w_junk_def)

lemma env_ok_fields:
  "get_image env_ok ''http://icons.test/cmyk.jpg'' = Inr (Picture ''cmyk'')"
  "get_image env_ok ''http://icons.test/zelda.png'' = Inl ConnectionError"
  "load_image env_ok im = None"
  "encode_png env_ok (Picture ''cmyk'') = Inl OSError"
  "open_image env_ok ''junk'' = Inl UnidentifiedImageError"
  "render env_ok im i = Inr (im, im)"
  by (simp_all add: env_ok_def)

lemma save_icon_unreachable:
  "save_icon env_ok f c ''http://icons.test/zelda.png'' p = (Some ConnectionError, f)"
  by (simp add: save_icon_def env_ok_fields)

lemma icon_absent:
  "os_exists (fs_added ''Zelda'') c0 ''mgba/Zelda/icon.png'' = False"
  "write_file (fs_added ''Zelda'') c0 ''mgba/Zelda/icon.png'' [] =
     Inr (fs_added ''Zelda'' @ [([''srv'', ''mgba'', ''Zelda'', ''icon.png''], File [])])"
  by (simp_all add: os_exists_def write_file_def fs_eval fs_added_def)

lemma save_icon_refused:
  "save_icon env_ok (fs_added ''Zelda'') c0 ''http://icons.test/cmyk.jpg'' ''mgba/Zelda/icon.png''
     = (Some OSError, fs_added ''Zelda'')"
  by (simp add: save_icon_def Image_save_def env_ok_fields icon_absent)

lemma game_paths:
  "abspath c0 ''mgba/Pokemon/game.gba'' = ''/srv/mgba/Pokemon/game.gba''"
  "abspath c0 ''mgba/Zelda/game.gba'' = ''/srv/mgba/Zelda/game.gba''"
  by (simp_all add: abspath_def c0_def getcwd_def join_def normpath_def)

lemma no_icon:
  "os_isfile fs0 c0 ''mgba/Pokemon/icon.png'' = False"
  "os_isfile (fs_added ''Zelda'') c0 ''mgba/Pokemon/icon.png'' = False"
  "os_isfile (fs_added ''Zelda'') c0 ''mgba/Zelda/icon.png'' = False"
  "os_isfile (fs_added ''mgba.home'') c0 ''mgba/Pokemon/icon.png'' = False"
  by (simp_all add: os_isfile_def fs_eval fs0_def fs_added_def)

lemma junk_icon:
  "os_isfile fs_junk c0 ''mgba/Pokemon/icon.png'' = True"
  "read_file fs_junk c0 ''mgba/Pokemon/icon.png'' = ''junk''"
  by (simp_all add: os_isfile_def read_file_def fs_eval fs_junk_def fs0_def)

lemma Game_init_values:
  "Game_init env_ok fs0 c0 ''Pokemon'' MGBA = Inr (blank_game ''Pokemon'')"
  "Game_init env_ok (fs_added ''Zelda'') c0 ''Pokemon'' MGBA = Inr (blank_game ''Pokemon'')"
  "Game_init env_ok (fs_added ''Zelda'') c0 ''Zelda'' MGBA = Inr (blank_game ''Zelda'')"
  "Game_init env_ok (fs_added ''mgba.home'') c0 ''Pokemon'' MGBA = Inr (blank_game ''Pokemon'')"
  "Game_init env_ok fs_junk c0 ''Pokemon'' MGBA = Inl UnidentifiedImageError"
  using game_paths
  by (simp_all add: Game_init_def Let_def mgba_fields joins no_icon junk_icon env_ok_fields
        blank_game_def)

lemma blank_game_fields: "name (blank_game nm) = nm" "emulator (blank_game nm) = MGBA"
  by (simp_all add: blank_game_def)

section \<open>Rebuilding the catalog\<close>

lemma App_listdir_filter:
  "os_listdir f c d = Inr ds \<Longrightarrow>
   App_listdir f c d None =
     Inr (filter (\<lambda>x. x \<notin> {d, d @ ''.config'', d @ ''.home'', d @ ''.png''}) ds)"
  by (simp add: App_listdir_def reserved_def)

lemma App_listdir_not_reserved:
  "App_listdir f c d None = Inr ds \<Longrightarrow> x \<in> set ds \<Longrightarrow>
   x \<notin> {d, d @ ''.config'', d @ ''.home'', d @ ''.png''}"
  by (auto simp: App_listdir_def reserved_def split: sum.splits)

lemma Game_init_fields:
  "Game_init en f c nm e = Inr g \<Longrightarrow>
   name g = nm \<and> emulator g = e \<and> path g = abspath c (sid e @ ''/'' @ nm @ ''/game.'' @ ext e)"
  by (auto simp: Game_init_def Let_def split: sum.splits if_splits prod.splits)

lemma built_map_Built [simp]: "built (map Built gs) = gs"
  by (induction gs) auto

lemma built_append [simp]: "built (xs @ ys) = built xs @ built ys"
  by (induction xs rule: built.induct) auto

text \<open>When every construction succeeds, the loops return one game per name, in order.\<close>

lemma build_loop_ok:
  "\<forall>d\<in>set ds. \<not> isl (Game_init en f c d e) \<Longrightarrow>
   build_loop en f c e ds acc = Inr (acc @ map (\<lambda>d. projr (Game_init en f c d e)) ds)"
proof (induction ds arbitrary: acc)
  case Nil
  then show ?case by simp
next
  case (Cons d ds)
  from Cons.prems obtain g where g: "Game_init en f c d e = Inr g"
    by (cases "Game_init en f c d e") auto
  from Cons.prems have "\<forall>d\<in>set ds. \<not> isl (Game_init en f c d e)" by simp
  from Cons.IH [OF this, of "acc @ [g]"] g show ?case by simp
qed

lemma load_loop_ok:
  assumes "\<forall>e\<in>set es. App_listdir f c (sid e) None = Inr (ls e)"
    and "\<forall>e\<in>set es. \<forall>d\<in>set (ls e). \<not> isl (Game_init en f c d e)"
  shows "load_loop en f c es acc =
     Inr (acc @ concat (map (\<lambda>e. map (\<lambda>d. projr (Game_init en f c d e)) (ls e)) es))"
  using assms
proof (induction es arbitrary: acc)
  case Nil
  then show ?case by simp
next
  case (Cons e es)
  from Cons.prems have l: "App_listdir f c (sid e) None = Inr (ls e)"
    and b: "\<forall>d\<in>set (ls e). \<not> isl (Game_init en f c d e)" by auto
  from Cons.prems have r: "\<forall>e\<in>set es. App_listdir f c (sid e) None = Inr (ls e)"
    "\<forall>e\<in>set es. \<forall>d\<in>set (ls e). \<not> isl (Game_init en f c d e)" by auto
  from Cons.IH [OF r] l build_loop_ok [OF b, of acc] show ?case by simp
qed

text \<open>
  Whatever the outcome of the loops, a game of the list was constructed for a name that
  \<open>App.listdir\<close> returned for its emulator.
\<close>

lemma build_loop_sound:
  "build_loop en f c e ds acc = r \<Longrightarrow>
   g \<in> set (case r of Inl (err, sl) \<Rightarrow> built sl | Inr gs \<Rightarrow> gs) \<Longrightarrow>
   g \<in> set acc \<or> (emulator g = e \<and> name g \<in> set ds)"
proof (induction ds arbitrary: acc)
  case Nil
  then show ?case by auto
next
  case (Cons d ds)
  show ?case
  proof (cases "Game_init en f c d e")
    case (Inl err)
    with Cons.prems show ?thesis by auto
  next
    case (Inr g')
    with Cons.prems have "build_loop en f c e ds (acc @ [g']) = r" by simp
    from Cons.IH [OF this Cons.prems(2)] Game_init_fields [OF Inr] show ?thesis by auto
  qed
qed

lemma load_loop_sound:
  "load_loop en f c es acc = r \<Longrightarrow>
   g \<in> set (case r of Inl (err, sl) \<Rightarrow> built sl | Inr gs \<Rightarrow> gs) \<Longrightarrow>
   g \<in> set acc \<or>
   (\<exists>e\<in>set es. emulator g = e \<and>
      (\<exists>ds. App_listdir f c (sid e) None = Inr ds \<and> name g \<in> set ds))"
proof (induction es arbitrary: acc)
  case Nil
  then show ?case by auto
next
  case (Cons e es)
  show ?case
  proof (cases "App_listdir f c (sid e) None")
    case (Inl err)
    with Cons.prems show ?thesis by auto
  next
    case (Inr ds)
    show ?thesis
    proof (cases "build_loop en f c e ds acc")
      case (Inl stop)
      with Inr Cons.prems have r: "r = Inl stop" by simp
      from build_loop_sound [OF Inl] Cons.prems(2) r Inr show ?thesis by auto
    next
      case b: (Inr acc')
      with Inr Cons.prems have "load_loop en f c es acc' = r" by simp
      from Cons.IH [OF this Cons.prems(2)]
      have "g \<in> set acc' \<or>
        (\<exists>e\<in>set es. emulator g = e \<and>
           (\<exists>ds. App_listdir f c (sid e) None = Inr ds \<and> name g \<in> set ds))" .
      moreover have "g \<in> set acc' \<Longrightarrow> g \<in> set acc \<or> (emulator g = e \<and> name g \<in> set ds)"
        using build_loop_sound [OF b, of g] by simp
      ultimately show ?thesis using Inr by auto
    qed
  qed
qed

text \<open>When the loops return, every name \<open>App.listdir\<close> returned has its game.\<close>

lemma build_loop_complete:
  "build_loop en f c e ds acc = Inr gs \<Longrightarrow>
   set acc \<subseteq> set gs \<and> (\<forall>d\<in>set ds. \<exists>g\<in>set gs. name g = d \<and> emulator g = e)"
proof (induction ds arbitrary: acc)
  case Nil
  then show ?case by simp
next
  case (Cons d ds)
  from Cons.prems obtain g where g: "Game_init en f c d e = Inr g"
    and r: "build_loop en f c e ds (acc @ [g]) = Inr gs"
    by (auto split: sum.splits)
  from Cons.IH [OF r] Game_init_fields [OF g] show ?case by auto
qed

lemma load_loop_complete:
  "load_loop en f c es acc = Inr gs \<Longrightarrow>
   set acc \<subseteq> set gs \<and>
   (\<forall>e\<in>set es. \<exists>ds. App_listdir f c (sid e) None = Inr ds
        \<and> (\<forall>d\<in>set ds. \<exists>g\<in>set gs. name g = d \<and> emulator g = e))"
proof (induction es arbitrary: acc)
  case Nil
  then show ?case by simp
next
  case (Cons e es)
  from Cons.prems obtain ds acc' where l: "App_listdir f c (sid e) None = Inr ds"
    and b: "build_loop en f c e ds acc = Inr acc'"
    and r: "load_loop en f c es acc' = Inr gs"
    by (auto split: sum.splits)
  from build_loop_complete [OF b] have 1: "set acc \<subseteq> set acc'"
    and 2: "\<forall>d\<in>set ds. \<exists>g\<in>set acc'. name g = d \<and> emulator g = e" by auto
  from Cons.IH [OF r] have 3: "set acc' \<subseteq> set gs"
    and 4: "\<forall>e\<in>set es. \<exists>ds. App_listdir f c (sid e) None = Inr ds
        \<and> (\<forall>d\<in>set ds. \<exists>g\<in>set gs. name g = d \<and> emulator g = e)" by auto
  from 2 3 have "\<forall>d\<in>set ds. \<exists>g\<in>set gs. name g = d \<and> emulator g = e" by blast
  with l 1 3 4 show ?case by auto
qed

lemma load_games_returned:
  assumes "load_games_of reg en w = (Returned, w')"
  obtains gs where "load_loop en (fs w) (cwd w) reg [] = Inr gs"
    "w' = w\<lparr>games_frame := Some (map Built (sort_key name gs))\<rparr>"
  using assms
  by (auto simp: load_games_of_def WrappingFrame_clear_def WrappingFrame_sort_def
      split: sum.splits prod.splits)

lemma load_games_frame:
  assumes "load_games_of reg en w = (r, w')" and "games_frame w' = Some sl"
  shows "set (built sl) =
     set (case load_loop en (fs w) (cwd w) reg [] of Inl (err, sl) \<Rightarrow> built sl | Inr gs \<Rightarrow> gs)"
  using assms
  by (auto simp: load_games_of_def WrappingFrame_clear_def WrappingFrame_sort_def
      split: sum.splits prod.splits)

text \<open>
  C4, as amended: for every registry and every state in which the directories of its
  emulators can be listed, \<open>App.listdir\<close> returns the listing without exactly the four
  names \<open>id\<close>, \<open>id.config\<close>, \<open>id.home\<close>, \<open>id.png\<close>.  If moreover the game of every other
  listed name can be constructed, the rebuild returns with exactly one game for each of
  them, carrying that name, the emulator and the path of its game file, sorted by name.
\<close>

theorem C4_listing_excludes_reserved:
  assumes ls: "\<forall>e\<in>set reg. os_listdir (fs w) (cwd w) (sid e) = Inr (ls e)"
    and ok: "\<forall>e\<in>set reg. \<forall>d\<in>set (ls e).
               d \<notin> {sid e, sid e @ ''.config'', sid e @ ''.home'', sid e @ ''.png''}
               \<longrightarrow> \<not> isl (Game_init en (fs w) (cwd w) d e)"
  shows "(\<forall>e\<in>set reg. App_listdir (fs w) (cwd w) (sid e) None =
            Inr (filter (\<lambda>d. d \<notin> {sid e, sid e @ ''.config'', sid e @ ''.home'', sid e @ ''.png''}) (ls e)))
     \<and> (\<exists>gs. load_games_of reg en w =
                (Returned, w\<lparr>games_frame := Some (map Built (sort_key name gs))\<rparr>)
            \<and> map (\<lambda>g. (name g, emulator g, path g)) gs =
                concat (map (\<lambda>e.
                  map (\<lambda>d. (d, e, abspath (cwd w) (sid e @ ''/'' @ d @ ''/game.'' @ ext e)))
                    (filter (\<lambda>d. d \<notin> {sid e, sid e @ ''.config'', sid e @ ''.home'', sid e @ ''.png''})
                       (ls e)))
                  reg))"
proof -
  let ?keep = "\<lambda>e. filter (\<lambda>d. d \<notin> {sid e, sid e @ ''.config'', sid e @ ''.home'', sid e @ ''.png''}) (ls e)"
  let ?g = "\<lambda>e d. projr (Game_init en (fs w) (cwd w) d e)"
  let ?gs = "concat (map (\<lambda>e. map (?g e) (?keep e)) reg)"
  from ls have 1: "\<forall>e\<in>set reg. App_listdir (fs w) (cwd w) (sid e) None = Inr (?keep e)"
    by (simp add: App_listdir_filter)
  from ok have 2: "\<forall>e\<in>set reg. \<forall>d\<in>set (?keep e). \<not> isl (Game_init en (fs w) (cwd w) d e)"
    by simp
  from load_loop_ok [OF 1 2, of "[]"]
  have 3: "load_games_of reg en w = (Returned, w\<lparr>games_frame := Some (map Built (sort_key name ?gs))\<rparr>)"
    by (simp add: load_games_of_def WrappingFrame_clear_def WrappingFrame_sort_def)
  have f: "(name (?g e d), emulator (?g e d), path (?g e d))
             = (d, e, abspath (cwd w) (sid e @ ''/'' @ d @ ''/game.'' @ ext e))"
    if "e \<in> set reg" "d \<in> set (?keep e)" for e d
  proof -
    from 2 that have "\<not> isl (Game_init en (fs w) (cwd w) d e)" by blast
    then obtain g where g: "Game_init en (fs w) (cwd w) d e = Inr g"
      by (cases "Game_init en (fs w) (cwd w) d e") auto
    from Game_init_fields [OF g] g show ?thesis by simp
  qed
  have 4: "map (\<lambda>g. (name g, emulator g, path g)) ?gs =
             concat (map (\<lambda>e.
                  map (\<lambda>d. (d, e, abspath (cwd w) (sid e @ ''/'' @ d @ ''/game.'' @ ext e)))
                    (?keep e)) reg)"
    unfolding map_concat map_map
    by (rule arg_cong [where f = concat]) (auto simp: f intro!: map_cong [OF refl])
  from 1 3 4 show ?thesis by blast
qed

text \<open>
  The scenario: the registry is mGBA alone and its directory holds the binary,
  \<open>mgba.config\<close> and \<open>Pokemon\<close>; the rebuild yields the one game \<open>Pokemon\<close>.
\<close>

theorem C4_listing_excludes_reserved_witness:
  "os_listdir fs0 c0 ''mgba'' = Inr [''mgba'', ''mgba.config'', ''Pokemon'']
   \<and> App_listdir fs0 c0 ''mgba'' None = Inr [''Pokemon'']
   \<and> (\<exists>gs. load_games_of [MGBA] env_ok w0 =
               (Returned, w0\<lparr>games_frame := Some (map Built (sort_key name gs))\<rparr>)
          \<and> map (\<lambda>g. (name g, emulator g, path g)) gs =
               [(''Pokemon'', MGBA, ''/srv/mgba/Pokemon/game.gba'')])"
proof -
  have h: "\<forall>e\<in>set [MGBA]. os_listdir (fs w0) (cwd w0) (sid e)
              = Inr ((\<lambda>e. [''mgba'', ''mgba.config'', ''Pokemon'']) e)"
    by (simp add: w0_fields mgba_fields listdir_fs0)
  have ok: "\<forall>e\<in>set [MGBA]. \<forall>d\<in>set ((\<lambda>e. [''mgba'', ''mgba.config'', ''Pokemon'']) e).
               d \<notin> {sid e, sid e @ ''.config'', sid e @ ''.home'', sid e @ ''.png''}
               \<longrightarrow> \<not> isl (Game_init env_ok (fs w0) (cwd w0) d e)"
    by (simp add: w0_fields mgba_fields Game_init_values)
  from C4_listing_excludes_reserved [OF h ok] show ?thesis
    using game_paths by (simp add: w0_fields mgba_fields listdir_fs0)
qed

lemma load_junk:
  "load_games_of [MGBA] env_ok w_junk
     = (Raised UnidentifiedImageError, w_junk\<lparr>games_frame := Some [Unbuilt]\<rparr>)"
  by (simp add: load_games_of_def WrappingFrame_clear_def w_junk_fields mgba_fields
        App_listdir_def reserved_def listdir_junk Game_init_values)

text \<open>
  C4 as stated fails: the directory of mGBA lists \<open>Pokemon\<close>, which is no reserved name,
  but its \<open>icon.png\<close> is no image; the rebuild raises UnidentifiedImageError and the list
  holds no game.
\<close>

theorem C4_counterexample:
  "os_listdir fs_junk c0 ''mgba'' = Inr [''mgba'', ''mgba.config'', ''Pokemon'']
   \<and> fst (load_games_of [MGBA] env_ok w_junk) = Raised UnidentifiedImageError
   \<and> map_option built (games_frame (snd (load_games_of [MGBA] env_ok w_junk))) = Some []"
  by (simp add: listdir_junk load_junk)

section \<open>Adding a game\<close>

text \<open>
  C3, as amended: when no registered emulator has the extension of the chosen file,
  \<open>add_game\<close> returns at once: nothing is raised or printed, and the state, file system
  included, is unchanged.
\<close>

theorem C3_unsupported_extension_returns:
  "from_ext (drop 1 (snd (splitext fl))) = None \<Longrightarrow>
   add_game reload_games en fl nm url w = (Returned, w)"
  by (simp add: add_game_def)

text \<open>
  A file \<open>zelda.xyz\<close> is ignored.
\<close>

theorem C3_unsupported_extension_returns_witness:
  "from_ext (drop 1 (snd (splitext ''zelda.xyz''))) = None
   \<and> add_game (load_games env_ok) env_ok ''zelda.xyz'' ''Zelda'' ''http://icons.test/zelda.png'' w0
       = (Returned, w0)"
proof -
  have h: "from_ext (drop 1 (snd (splitext ''zelda.xyz''))) = None"
    by (simp add: ext_of_file ext_of_file_Suc from_ext_values)
  from C3_unsupported_extension_returns [OF h] h show ?thesis by simp
qed

lemma add_game_xyz:
  "add_game (load_games env_ok) env_ok ''zelda.xyz'' ''Zelda'' ''http://icons.test/zelda.png'' w0
     = (Returned, w0)"
  by (simp add: add_game_def ext_of_file ext_of_file_Suc from_ext_values)

text \<open>
  C3 as stated fails: for \<open>zelda.xyz\<close> the function returns normally; no exception is
  raised, nothing is printed, and the window stays open.
\<close>

theorem C3_counterexample:
  "fst (add_game (load_games env_ok) env_ok ''zelda.xyz'' ''Zelda''
          ''http://icons.test/zelda.png'' w0) = Returned
   \<and> (\<forall>err. fst (add_game (load_games env_ok) env_ok ''zelda.xyz'' ''Zelda''
                    ''http://icons.test/zelda.png'' w0) \<noteq> Raised err)
   \<and> console (snd (add_game (load_games env_ok) env_ok ''zelda.xyz'' ''Zelda''
                    ''http://icons.test/zelda.png'' w0)) = []
   \<and> shown (snd (add_game (load_games env_ok) env_ok ''zelda.xyz'' ''Zelda''
                    ''http://icons.test/zelda.png'' w0))"
  by (simp add: add_game_xyz w0_fields)

text \<open>
  C2, as amended: when the directory was created and the move raises, the exception
  of the move leaves \<open>add_game\<close> with nothing printed and no reload, and the only change
  is the new directory, which stays on disk.
\<close>

theorem C2_failed_move_leaves_directory:
  assumes "from_ext (drop 1 (snd (splitext fl))) = Some emu"
    and "os_mkdir (fs w) (cwd w) (join (sid emu) [nm]) = Inr f1"
    and "os_rename f1 (cwd w) (''rom zips/'' @ fl)
           (join (sid emu) [nm, ''game.'' @ drop 1 (snd (splitext fl))]) = Inl err"
  shows "add_game reload_games en fl nm url w = (Raised err, w\<lparr>fs := f1\<rparr>)
     \<and> (\<exists>q. resolve (fs w) (cwd w) (join (sid emu) [nm]) = Inr q
            \<and> lookup (fs w) q = None \<and> lookup f1 q = Some Dir)"
proof -
  from assms have "add_game reload_games en fl nm url w = (Raised err, w\<lparr>fs := f1\<rparr>)"
    by (simp add: add_game_def)
  moreover from mkdir_creates [OF assms(2)]
  have "\<exists>q. resolve (fs w) (cwd w) (join (sid emu) [nm]) = Inr q
            \<and> lookup (fs w) q = None \<and> lookup f1 q = Some Dir" by metis
  ultimately show ?thesis by simp
qed

text \<open>
  The chosen file \<open>metroid.gba\<close> is no longer in \<open>rom zips\<close>: the directory
  \<open>mgba/Metroid\<close> is created, the move raises FileNotFoundError.
\<close>

theorem C2_failed_move_leaves_directory_witness:
  "add_game (load_games env_ok) env_ok ''metroid.gba'' ''Metroid''
     ''http://icons.test/metroid.png'' w0
     = (Raised FileNotFoundError, w0\<lparr>fs := fs0 @ [([''srv'', ''mgba'', ''Metroid''], Dir)]\<rparr>)
   \<and> (\<exists>q. resolve fs0 c0 ''mgba/Metroid'' = Inr q \<and> lookup fs0 q = None
          \<and> lookup (fs0 @ [([''srv'', ''mgba'', ''Metroid''], Dir)]) q = Some Dir)"
proof -
  have x: "from_ext (drop 1 (snd (splitext ''metroid.gba''))) = Some MGBA"
    by (simp add: ext_of_file ext_of_file_Suc from_ext_values)
  have mk: "os_mkdir (fs w0) (cwd w0) (join (sid MGBA) [''Metroid''])
              = Inr (fs0 @ [([''srv'', ''mgba'', ''Metroid''], Dir)])"
    by (simp add: w0_fields mgba_fields joins mkdir_metroid)
  have mv: "os_rename (fs0 @ [([''srv'', ''mgba'', ''Metroid''], Dir)]) (cwd w0)
              (''rom zips/'' @ ''metroid.gba'')
              (join (sid MGBA) [''Metroid'', ''game.'' @ drop 1 (snd (splitext ''metroid.gba''))])
              = Inl FileNotFoundError"
    by (simp add: w0_fields mgba_fields ext_of_file ext_of_file_Suc joins rename_metroid)
  from C2_failed_move_leaves_directory [OF x mk mv, of "load_games env_ok" env_ok
      "''http://icons.test/metroid.png''"]
  show ?thesis by (simp add: w0_fields mgba_fields joins)
qed

lemma add_game_metroid:
  "add_game (load_games env_ok) env_ok ''metroid.gba'' ''Metroid''
     ''http://icons.test/metroid.png'' w0
     = (Raised FileNotFoundError, w0\<lparr>fs := fs0 @ [([''srv'', ''mgba'', ''Metroid''], Dir)]\<rparr>)"
  by (simp add: add_game_def ext_of_file ext_of_file_Suc from_ext_values w0_fields mgba_fields
        joins mkdir_metroid rename_metroid)

text \<open>
  C2 as stated fails: after the failed move the directory \<open>mgba/Metroid\<close>, absent
  before, is on disk.
\<close>

theorem C2_counterexample:
  "fst (add_game (load_games env_ok) env_ok ''metroid.gba'' ''Metroid''
          ''http://icons.test/metroid.png'' w0) = Raised FileNotFoundError
   \<and> lookup (fs w0) [''srv'', ''mgba'', ''Metroid''] = None
   \<and> lookup (fs (snd (add_game (load_games env_ok) env_ok ''metroid.gba'' ''Metroid''
                         ''http://icons.test/metroid.png'' w0)))
        [''srv'', ''mgba'', ''Metroid''] = Some Dir"
  by (simp add: add_game_metroid w0_fields lookup_metroid)

lemma added_directory_listed:
  assumes e: "emu \<in> set Emulators_ALL"
    and ne: "nm \<noteq> []" and sl: "CHR ''/'' \<notin> set nm"
    and mk: "os_mkdir f c (join (sid emu) [nm]) = Inr f1"
    and mv: "os_rename f1 c src (join (sid emu) [nm, ''game.'' @ ext emu]) = Inr f2"
    and keys: "fst ` set f2 \<subseteq> fst ` set f3"
    and ls: "os_listdir f3 c (sid emu) = Inr ds"
  shows "nm \<in> set ds"
proof -
  note m = registry_member [OF e]
  from added_directory_entry [OF e ne sl mk mv] have "(c @ [sid emu, nm], Dir) \<in> set f2" .
  then have "c @ [sid emu, nm] \<in> fst ` set f2" by force
  with keys obtain n where "(c @ [sid emu, nm], n) \<in> set f3" by auto
  then have "((c @ [sid emu]) @ [nm], n) \<in> set f3" by simp
  then have "nm \<in> set (children f3 (c @ [sid emu]))" by (rule children_mem)
  moreover from m ls have "ds = children f3 (c @ [sid emu])"
    by (intro listdir_one) auto
  ultimately show ?thesis by simp
qed

text \<open>
  C8, as amended: when the file is supported, the directory was created, the file was
  moved, and fetching or saving the icon raises, the exception is printed and \<open>add_game\<close>
  goes on to the reload, whose outcome is its own; the file system is the one the move
  left, except possibly at the icon file itself.  When the name is not empty and has no
  slash, the emulator's directory lists it.  If moreover the name is none of the four
  reserved names of the emulator and the reload returns, the catalog has a game of that
  name for that emulator.  If the name is one of the reserved names, the catalog has no
  such game, whatever the outcome of the reload.
\<close>

theorem C8_icon_failure_not_fatal:
  assumes x: "from_ext (drop 1 (snd (splitext fl))) = Some emu"
    and mk: "os_mkdir (fs w) (cwd w) (join (sid emu) [nm]) = Inr f1"
    and mv: "os_rename f1 (cwd w) (''rom zips/'' @ fl)
               (join (sid emu) [nm, ''game.'' @ drop 1 (snd (splitext fl))]) = Inr f2"
    and ic: "save_icon en f2 (cwd w) url (join (sid emu) [nm, ''icon.png'']) = (Some err, f3)"
  shows "add_game (load_games en) en fl nm url w =
           (case load_games en
                   (w\<lparr>fs := f3,
                      console := console w @ [Text ''Could not load icon'', Exc err]\<rparr>) of
              (Raised e, w4) \<Rightarrow> (Raised e, w4)
            | (Returned, w4) \<Rightarrow> (Returned, w4\<lparr>shown := False\<rparr>))
     \<and> (\<forall>k. resolve f2 (cwd w) (join (sid emu) [nm, ''icon.png'']) \<noteq> Inr k
            \<longrightarrow> lookup f3 k = lookup f2 k)
     \<and> (nm \<noteq> [] \<longrightarrow> CHR ''/'' \<notin> set nm \<longrightarrow>
          (\<forall>ds. os_listdir f3 (cwd w) (sid emu) = Inr ds \<longrightarrow> nm \<in> set ds))
     \<and> (\<forall>w4 sl. load_games en
                   (w\<lparr>fs := f3,
                      console := console w @ [Text ''Could not load icon'', Exc err]\<rparr>)
                   = (Returned, w4) \<longrightarrow>
                 games_frame w4 = Some sl \<longrightarrow> nm \<noteq> [] \<longrightarrow> CHR ''/'' \<notin> set nm \<longrightarrow>
                 nm \<notin> {sid emu, sid emu @ ''.config'', sid emu @ ''.home'', sid emu @ ''.png''} \<longrightarrow>
                 (\<exists>g\<in>set (built sl). name g = nm \<and> emulator g = emu))
     \<and> (\<forall>r w4 sl. load_games en
                   (w\<lparr>fs := f3,
                      console := console w @ [Text ''Could not load icon'', Exc err]\<rparr>)
                   = (r, w4) \<longrightarrow>
                 games_frame w4 = Some sl \<longrightarrow>
                 nm \<in> {sid emu, sid emu @ ''.config'', sid emu @ ''.home'', sid emu @ ''.png''} \<longrightarrow>
                 \<not> (\<exists>g\<in>set (built sl). name g = nm \<and> emulator g = emu))"
proof -
  let ?w3 = "w\<lparr>fs := f3, console := console w @ [Text ''Could not load icon'', Exc err]\<rparr>"
  let ?res = "{sid emu, sid emu @ ''.config'', sid emu @ ''.home'', sid emu @ ''.png''}"
  from from_ext_member [OF x] have e: "emu \<in> set Emulators_ALL"
    and xe: "drop 1 (snd (splitext fl)) = ext emu" by auto
  from mv xe have mv': "os_rename f1 (cwd w) (''rom zips/'' @ fl)
               (join (sid emu) [nm, ''game.'' @ ext emu]) = Inr f2" by simp
  from save_icon_failure [OF ic]
  have same: "\<forall>k. resolve f2 (cwd w) (join (sid emu) [nm, ''icon.png'']) \<noteq> Inr k
            \<longrightarrow> lookup f3 k = lookup f2 k"
    and keys: "fst ` set f2 \<subseteq> fst ` set f3" by auto
  from x mk mv ic
  have 1: "add_game (load_games en) en fl nm url w =
           (case load_games en ?w3 of
              (Raised e, w4) \<Rightarrow> (Raised e, w4)
            | (Returned, w4) \<Rightarrow> (Returned, w4\<lparr>shown := False\<rparr>))"
    by (simp add: add_game_def)
  have 3: "nm \<in> set ds"
    if "nm \<noteq> []" "CHR ''/'' \<notin> set nm" "os_listdir f3 (cwd w) (sid emu) = Inr ds" for ds
    using added_directory_listed [OF e that(1,2) mk mv' keys that(3)] .
  have 4: "\<exists>g\<in>set (built sl). name g = nm \<and> emulator g = emu"
    if lg: "load_games en ?w3 = (Returned, w4)" and fr: "games_frame w4 = Some sl"
      and ne: "nm \<noteq> []" and sl: "CHR ''/'' \<notin> set nm" and nr: "nm \<notin> ?res" for w4 sl
  proof -
    from lg have "load_games_of Emulators_ALL en ?w3 = (Returned, w4)"
      by (simp add: load_games_def)
    from load_games_returned [OF this] obtain gs where
      ll: "load_loop en f3 (cwd w) Emulators_ALL [] = Inr gs"
      and w4: "w4 = ?w3\<lparr>games_frame := Some (map Built (sort_key name gs))\<rparr>"
      by auto
    from w4 fr have b: "set (built sl) = set gs" by auto
    from load_loop_complete [OF ll] e obtain ds where
      al: "App_listdir f3 (cwd w) (sid emu) None = Inr ds"
      and all: "\<forall>d\<in>set ds. \<exists>g\<in>set gs. name g = d \<and> emulator g = emu" by blast
    from al obtain raw where raw: "os_listdir f3 (cwd w) (sid emu) = Inr raw"
      by (auto simp: App_listdir_def split: sum.splits)
    from 3 [OF ne sl raw] have "nm \<in> set raw" .
    with App_listdir_filter [OF raw] al nr have "nm \<in> set ds" by auto
    with all b show ?thesis by auto
  qed
  have 5: "\<not> (\<exists>g\<in>set (built sl). name g = nm \<and> emulator g = emu)"
    if lg: "load_games en ?w3 = (r, w4)" and fr: "games_frame w4 = Some sl"
      and res: "nm \<in> ?res" for r w4 sl
  proof
    assume "\<exists>g\<in>set (built sl). name g = nm \<and> emulator g = emu"
    then obtain g where g: "g \<in> set (built sl)" "name g = nm" "emulator g = emu" by auto
    from lg have "load_games_of Emulators_ALL en ?w3 = (r, w4)" by (simp add: load_games_def)
    from load_games_frame [OF this fr] g(1)
    have "g \<in> set (case load_loop en f3 (cwd w) Emulators_ALL [] of
                     Inl (err, sl) \<Rightarrow> built sl | Inr gs \<Rightarrow> gs)" by simp
    from load_loop_sound [OF refl this] g(2,3) obtain ds where
      "App_listdir f3 (cwd w) (sid emu) None = Inr ds" "nm \<in> set ds" by auto
    from App_listdir_not_reserved [OF this] res show False by simp
  qed
  from 1 same 3 4 5 show ?thesis by blast
qed

lemma load_games_zelda:
  "load_games env_ok (w0\<lparr>fs := fs_added ''Zelda'',
                        console := console w0 @ [Text ''Could not load icon'', Exc OSError]\<rparr>)
     = (Returned, w0\<lparr>fs := fs_added ''Zelda'',
                  console := [Text ''Could not load icon'', Exc OSError],
                  games_frame := Some [Built (blank_game ''Pokemon''), Built (blank_game ''Zelda'')]\<rparr>)"
  by (simp add: load_games_def load_games_of_def Emulators_ALL_def w0_fields sids
        App_listdir_def reserved_def listdir_zelda Game_init_values
        WrappingFrame_clear_def WrappingFrame_sort_def blank_game_fields)

text \<open>
  Adding \<open>zelda.gba\<close> as \<open>Zelda\<close> with an icon that the PNG encoder refuses: the
  exception is printed, no \<open>icon.png\<close> is left, and the catalog has \<open>Zelda\<close>.
\<close>

theorem C8_icon_failure_not_fatal_witness:
  "add_game (load_games env_ok) env_ok ''zelda.gba'' ''Zelda'' ''http://icons.test/cmyk.jpg'' w0
     = (Returned, w0\<lparr>fs := fs_added ''Zelda'',
                  console := [Text ''Could not load icon'', Exc OSError],
                  games_frame := Some [Built (blank_game ''Pokemon''), Built (blank_game ''Zelda'')],
                  shown := False\<rparr>)
   \<and> (\<exists>g\<in>set (built [Built (blank_game ''Pokemon''), Built (blank_game ''Zelda'')]).
          name g = ''Zelda'' \<and> emulator g = MGBA)"
proof -
  have x: "from_ext (drop 1 (snd (splitext ''zelda.gba''))) = Some MGBA"
    by (simp add: ext_of_file ext_of_file_Suc from_ext_values)
  have mk: "os_mkdir (fs w0) (cwd w0) (join (sid MGBA) [''Zelda''])
              = Inr (fs0 @ [([''srv'', ''mgba'', ''Zelda''], Dir)])"
    by (simp add: w0_fields mgba_fields joins mkdir_zelda)
  have mv: "os_rename (fs0 @ [([''srv'', ''mgba'', ''Zelda''], Dir)]) (cwd w0)
              (''rom zips/'' @ ''zelda.gba'')
              (join (sid MGBA) [''Zelda'', ''game.'' @ drop 1 (snd (splitext ''zelda.gba''))])
              = Inr (fs_added ''Zelda'')"
    by (simp add: w0_fields mgba_fields ext_of_file ext_of_file_Suc joins rename_zelda)
  have ic: "save_icon env_ok (fs_added ''Zelda'') (cwd w0) ''http://icons.test/cmyk.jpg''
              (join (sid MGBA) [''Zelda'', ''icon.png'']) = (Some OSError, fs_added ''Zelda'')"
    by (simp add: w0_fields mgba_fields joins save_icon_refused)
  note t = C8_icon_failure_not_fatal [OF x mk mv ic]
  from t [THEN conjunct1] have 1:
    "add_game (load_games env_ok) env_ok ''zelda.gba'' ''Zelda'' ''http://icons.test/cmyk.jpg'' w0
     = (Returned, w0\<lparr>fs := fs_added ''Zelda'',
                  console := [Text ''Could not load icon'', Exc OSError],
                  games_frame := Some [Built (blank_game ''Pokemon''), Built (blank_game ''Zelda'')],
                  shown := False\<rparr>)"
    by (simp add: load_games_zelda)
  have nr: "''Zelda'' \<notin> {sid MGBA, sid MGBA @ ''.config'', sid MGBA @ ''.home'', sid MGBA @ ''.png''}"
    by (simp add: mgba_fields)
  from t [THEN conjunct2, THEN conjunct2, THEN conjunct2, THEN conjunct1, rule_format,
          OF load_games_zelda _ _ _ nr,
          of "[Built (blank_game ''Pokemon''), Built (blank_game ''Zelda'')]"]
  have 2: "\<exists>g\<in>set (built [Built (blank_game ''Pokemon''), Built (blank_game ''Zelda'')]).
          name g = ''Zelda'' \<and> emulator g = MGBA"
    by simp
  from 1 2 show ?thesis by simp
qed

lemma load_games_home:
  "load_games env_ok (w0\<lparr>fs := fs_added ''mgba.home'',
                  console := [Text ''Could not load icon'', Exc ConnectionError]\<rparr>)
     = (Returned, w0\<lparr>fs := fs_added ''mgba.home'',
                  console := [Text ''Could not load icon'', Exc ConnectionError],
                  games_frame := Some [Built (blank_game ''Pokemon'')]\<rparr>)"
  by (simp add: load_games_def load_games_of_def Emulators_ALL_def w0_fields sids
        App_listdir_def reserved_def listdir_home Game_init_values
        WrappingFrame_clear_def WrappingFrame_sort_def)

lemma add_game_home:
  "add_game (load_games env_ok) env_ok ''zelda.gba'' ''mgba.home'' ''http://icons.test/zelda.png'' w0
     = (Returned, w0\<lparr>fs := fs_added ''mgba.home'',
                  console := [Text ''Could not load icon'', Exc ConnectionError],
                  games_frame := Some [Built (blank_game ''Pokemon'')],
                  shown := False\<rparr>)"
  by (simp add: add_game_def ext_of_file ext_of_file_Suc from_ext_values w0_fields mgba_fields
        joins mkdir_home rename_home save_icon_unreachable load_games_home)

text \<open>
  C8 as stated fails: adding \<open>zelda.gba\<close> under the name \<open>mgba.home\<close> with an
  unreachable icon creates the directory and moves the file, but the reloaded catalog
  holds \<open>Pokemon\<close> only, since \<open>App.listdir\<close> leaves that name out.
\<close>

theorem C8_counterexample:
  "fst (add_game (load_games env_ok) env_ok ''zelda.gba'' ''mgba.home''
          ''http://icons.test/zelda.png'' w0) = Returned
   \<and> lookup (fs (snd (add_game (load_games env_ok) env_ok ''zelda.gba'' ''mgba.home''
                         ''http://icons.test/zelda.png'' w0)))
        [''srv'', ''mgba'', ''mgba.home''] = Some Dir
   \<and> lookup (fs (snd (add_game (load_games env_ok) env_ok ''zelda.gba'' ''mgba.home''
                         ''http://icons.test/zelda.png'' w0)))
        [''srv'', ''mgba'', ''mgba.home'', ''game.gba''] = Some (File ''rom2'')
   \<and> console (snd (add_game (load_games env_ok) env_ok ''zelda.gba'' ''mgba.home''
                         ''http://icons.test/zelda.png'' w0))
        = [Text ''Could not load icon'', Exc ConnectionError]
   \<and> map_option (map name \<circ> built)
        (games_frame (snd (add_game (load_games env_ok) env_ok ''zelda.gba''
                         ''mgba.home'' ''http://icons.test/zelda.png'' w0)))
        = Some [''Pokemon'']"
  by (simp add: add_game_home lookup_home blank_game_fields)

end
